theory Spec2Isabelle
  imports Main "HOL-Library.Sublist" "HOL-Library.AList"
begin

section \<open>JavaScript values\<close>

text \<open>
  A request body is a value parsed from JSON. Numbers are kept abstract (the type
  parameter \<open>'n\<close>): the handlers only compare them with zero and add and multiply them, so
  every statement below holds for the arithmetic of IEEE doubles as for exact numbers.
  An object is an association list; a property is read with \<open>map_of\<close>, so the first
  binding of a key is the one that counts. JavaScript's \<open>undefined\<close> is the \<open>None\<close> of
  \<open>'n json option\<close>.
\<close>

datatype 'n json =
    JNull
  | JBool bool
  | JNum 'n
  | JStr string
  | JArr "'n json list"
  | JObj "(string \<times> 'n json) list"

type_synonym 'n jsval = "'n json option"

text \<open>\<open>!value\<close> is \<open>\<not> truthy value\<close>: undefined, null, false, 0 and the empty string are falsy.\<close>

fun truthy :: "'n::zero jsval \<Rightarrow> bool" where
  "truthy None = False"
| "truthy (Some JNull) = False"
| "truthy (Some (JBool b)) = b"
| "truthy (Some (JNum n)) = (n \<noteq> 0)"
| "truthy (Some (JStr s)) = (s \<noteq> [])"
| "truthy (Some (JArr xs)) = True"
| "truthy (Some (JObj kvs)) = True"

text \<open>\<open>typeof value === 'string'\<close>.\<close>

fun is_string :: "'n jsval \<Rightarrow> bool" where
  "is_string (Some (JStr s)) = True"
| "is_string v = False"

text \<open>\<open>value.startsWith(p)\<close>, for a value already known to be a string.\<close>

fun startsWith :: "'n jsval \<Rightarrow> string \<Rightarrow> bool" where
  "startsWith (Some (JStr s)) p = prefix p s"
| "startsWith v p = False"

text \<open>
  \<open>obj.k\<close> on a value that is not null or undefined: the property of an object, undefined on
  a primitive or an array (whose own properties are indices and \<open>length\<close> only).
\<close>

fun get_prop :: "'n json \<Rightarrow> string \<Rightarrow> 'n jsval" where
  "get_prop (JObj kvs) k = map_of kvs k"
| "get_prop v k = None"

text \<open>\<open>v?.k\<close>: undefined when \<open>v\<close> is null or undefined.\<close>

fun oprop :: "'n jsval \<Rightarrow> string \<Rightarrow> 'n jsval" where
  "oprop None k = None"
| "oprop (Some JNull) k = None"
| "oprop (Some v) k = get_prop v k"

text \<open>
  \<open>obj.k = v\<close> and \<open>delete obj.k\<close>. A key assigned undefined reads as undefined and is
  dropped when the object is serialised or handed to the store, so it is modelled as
  absent. On a primitive both are no-ops.
\<close>

fun set_prop :: "'n json \<Rightarrow> string \<Rightarrow> 'n jsval \<Rightarrow> 'n json" where
  "set_prop (JObj kvs) k (Some v) = JObj (AList.update k v kvs)"
| "set_prop (JObj kvs) k None = JObj (AList.delete k kvs)"
| "set_prop x k v = x"

fun delete_prop :: "'n json \<Rightarrow> string \<Rightarrow> 'n json" where
  "delete_prop (JObj kvs) k = JObj (AList.delete k kvs)"
| "delete_prop x k = x"

fun is_object :: "'n json \<Rightarrow> bool" where
  "is_object (JObj kvs) = True"
| "is_object v = False"


text \<open>A thrown \<open>Error\<close> is the \<open>Inl\<close> of a sum, carrying its message.\<close>

definition and_then :: "string + 'a \<Rightarrow> ('a \<Rightarrow> string + 'b) \<Rightarrow> string + 'b" where
  "and_then r f = (case r of Inl e \<Rightarrow> Inl e | Inr x \<Rightarrow> f x)"

text \<open>\<open>try { body } catch (error) { handler }\<close>\<close>

definition try_catch :: "string + 'a \<Rightarrow> (string \<Rightarrow> string + 'a) \<Rightarrow> string + 'a" where
  "try_catch body handler = (case body of Inl error \<Rightarrow> handler error | Inr v \<Rightarrow> Inr v)"

section \<open>Sanitising a cart payload (routes/cart.js)\<close>

text \<open>
  \<open>clonePayload\<close> is \<open>JSON.parse(JSON.stringify(payload))\<close>: on a value that was itself
  parsed from JSON it returns an equal, fresh value.
\<close>

definition clonePayload :: "'n json \<Rightarrow> 'n json" where
  "clonePayload payload = payload"

definition ensureHostedImage :: "'n::zero jsval \<Rightarrow> string \<Rightarrow> bool \<Rightarrow> string + 'n jsval" where
  "ensureHostedImage v field allowMissing =
     (if \<not> truthy v then
        (if allowMissing then Inr v else Inl (field @ '' is required''))
      else if \<not> is_string v then Inl (field @ '' must be a string URL'')
      else if startsWith v ''data:'' then Inl (field @ '' must be uploaded before saving'')
      else Inr v)"

text \<open>
  \<open>sanitized.f = sanitized.f ? ensureHostedImage(sanitized.f, 'f', partial) : sanitized.f\<close>
\<close>

definition check_supplied :: "'n::zero json \<Rightarrow> string \<Rightarrow> bool \<Rightarrow> string + 'n json" where
  "check_supplied sanitized f partial =
     (if truthy (get_prop sanitized f)
      then and_then (ensureHostedImage (get_prop sanitized f) f partial) (\<lambda>v. Inr (set_prop sanitized f v))
      else Inr (set_prop sanitized f (get_prop sanitized f)))"

text \<open>\<open>sanitized.f = ensureHostedImage(sanitized.f, 'f')\<close>: the third argument is missing, so falsy.\<close>

definition check_required :: "'n::zero json \<Rightarrow> string \<Rightarrow> string + 'n json" where
  "check_required sanitized f =
     and_then (ensureHostedImage (get_prop sanitized f) f False) (\<lambda>v. Inr (set_prop sanitized f v))"

text \<open>
  \<open>const { zoom, position, adjustments, filter, crop } = imageSettings\<close> followed by the
  object literal \<open>{ zoom, position, adjustments, filter, crop }\<close>.
\<close>

definition pick_image_settings :: "'n json \<Rightarrow> 'n json" where
  "pick_image_settings s =
     JObj (concat (map (\<lambda>k. case get_prop s k of None \<Rightarrow> [] | Some v \<Rightarrow> [(k, v)])
       [''zoom'', ''position'', ''adjustments'', ''filter'', ''crop'']))"

definition strip_image_settings :: "'n::zero json \<Rightarrow> 'n json" where
  "strip_image_settings sanitized =
     (case oprop (get_prop sanitized ''configuration'') ''imageSettings'' of
        Some s \<Rightarrow>
          if truthy (Some s)
          then (case get_prop sanitized ''configuration'' of
                  Some c \<Rightarrow> set_prop sanitized ''configuration''
                              (Some (set_prop c ''imageSettings'' (Some (pick_image_settings s))))
                | None \<Rightarrow> sanitized)
          else sanitized
      | None \<Rightarrow> sanitized)"

definition strip_uploads :: "'n::zero json \<Rightarrow> 'n json" where
  "strip_uploads sanitized =
     (case get_prop sanitized ''configuration'' of
        Some c \<Rightarrow>
          if truthy (Some c)
          then set_prop sanitized ''configuration''
                 (Some (delete_prop (delete_prop c ''uploadedImages'') ''logoFile''))
          else sanitized
      | None \<Rightarrow> sanitized)"

definition sanitizeCartPayload :: "'n::zero json \<Rightarrow> bool \<Rightarrow> string + 'n json" where
  "sanitizeCartPayload payload partial =
     and_then (check_supplied (clonePayload payload) ''image'' partial) (\<lambda>s1.
     and_then (check_supplied s1 ''finalImage'' partial) (\<lambda>s2.
     and_then (check_supplied s2 ''originalImageUrl'' partial) (\<lambda>s3.
     and_then (if \<not> partial
               then and_then (check_required s3 ''image'') (\<lambda>t1.
                    and_then (check_required t1 ''finalImage'') (\<lambda>t2.
                    check_required t2 ''originalImageUrl''))
               else Inr s3) (\<lambda>s4.
     Inr (strip_uploads (strip_image_settings s4))))))"

text \<open>A value the sanitiser lets through as an image: a non-empty string without the inline-data prefix.\<close>

definition hosted :: "'n::zero jsval \<Rightarrow> bool" where
  "hosted v = (truthy v \<and> is_string v \<and> \<not> startsWith v ''data:'')"

text \<open>The three image fields, in the order the sanitiser checks them.\<close>

definition image_fields :: "string list" where
  "image_fields = [''image'', ''finalImage'', ''originalImageUrl'']"

text \<open>A supplied (truthy) image field that the sanitiser refuses: not a string, or inline data.\<close>

definition offending :: "'n::zero json \<Rightarrow> string \<Rightarrow> bool" where
  "offending body f = (truthy (get_prop body f) \<and> \<not> hosted (get_prop body f))"



section \<open>The cart item collection (models/CartItem.js)\<close>

text \<open>
  A stored document keeps its data fields as an object and the two timestamps the server
  assigns (\<open>timestamps: true\<close>). The collection is a list in insertion order. The clock
  \<open>now\<close> is an argument of every operation that reads \<open>new Date()\<close>.

  What the storage library does is modelled as follows. A filter \<open>{k: v}\<close> compares the
  stored field with \<open>v\<close>, a missing field and an undefined \<open>v\<close> both counting as null.
  \<open>create\<close> fills in the schema's defaults, runs the schema's validators and enforces the
  unique index on \<open>id\<close>. \<open>findOneAndUpdate\<close> with a plain object sets the top-level
  fields the object supplies, runs no validator (the schema's statics do not pass
  \<open>runValidators\<close>) and still answers to the unique index. Casting between types and the
  dropping of keys the schema does not declare are not modelled: a payload field is
  stored as it is supplied.
\<close>

record 'n cart_doc =
  doc_fields :: "(string \<times> 'n json) list"
  createdAt :: nat
  updatedAt :: nat

datatype store_error = ValidationError | DuplicateKey

definition null_if_missing :: "'n jsval \<Rightarrow> 'n json" where
  "null_if_missing v = (case v of None \<Rightarrow> JNull | Some x \<Rightarrow> x)"

definition field_eq :: "'n cart_doc \<Rightarrow> string \<Rightarrow> 'n jsval \<Rightarrow> bool" where
  "field_eq d k q = (null_if_missing (map_of (doc_fields d) k) = null_if_missing q)"

text \<open>The key of the unique index declared by \<open>id: { unique: true }\<close>.\<close>

definition id_key :: "'n cart_doc \<Rightarrow> 'n json" where
  "id_key d = null_if_missing (map_of (doc_fields d) ''id'')"

definition unique_ids :: "'n cart_doc list \<Rightarrow> bool" where
  "unique_ids db = distinct (map id_key db)"

definition matches :: "'n jsval \<Rightarrow> 'n jsval \<Rightarrow> 'n cart_doc \<Rightarrow> bool" where
  "matches i userEmail d = (field_eq d ''id'' i \<and> field_eq d ''userEmail'' userEmail)"

text \<open>\<open>CartItem.findOne({ id, userEmail })\<close>\<close>

definition findOne :: "'n cart_doc list \<Rightarrow> 'n jsval \<Rightarrow> 'n jsval \<Rightarrow> 'n cart_doc option" where
  "findOne db i userEmail = find (matches i userEmail) db"


text \<open>The schema's defaults, applied to a field that is undefined.\<close>

definition default_to :: "string \<Rightarrow> 'n json \<Rightarrow> (string \<times> 'n json) list \<Rightarrow> (string \<times> 'n json) list" where
  "default_to k v kvs = (if map_of kvs k = None then AList.update k v kvs else kvs)"

definition with_defaults :: "(string \<times> 'n::one json) list \<Rightarrow> (string \<times> 'n json) list" where
  "with_defaults kvs =
     default_to ''currency'' (JStr ''USD'')
       (default_to ''quantity'' (JNum 1)
         (default_to ''name'' (JStr ''Custom Mousepad'') kvs))"

text \<open>
  The schema's validators: \<open>required\<close> (a string must also be non-empty), \<open>min\<close> and
  \<open>enum\<close>. The optional \<open>specs.rgb\<close> ranges are left out; they only refuse more.
\<close>

definition required_string :: "'n jsval \<Rightarrow> bool" where
  "required_string v = (case v of Some (JStr s) \<Rightarrow> s \<noteq> [] | _ \<Rightarrow> False)"

definition number_min :: "'n::ord \<Rightarrow> 'n jsval \<Rightarrow> bool" where
  "number_min m v = (case v of Some (JNum n) \<Rightarrow> m \<le> n | _ \<Rightarrow> False)"

definition string_enum :: "string list \<Rightarrow> 'n jsval \<Rightarrow> bool" where
  "string_enum vs v = (case v of Some (JStr s) \<Rightarrow> s \<in> set vs | _ \<Rightarrow> False)"

definition schema_valid :: "(string \<times> 'n::{zero,one,ord} json) list \<Rightarrow> bool" where
  "schema_valid kvs =
     (required_string (map_of kvs ''userEmail'') \<and>
      required_string (map_of kvs ''id'') \<and>
      required_string (map_of kvs ''name'') \<and>
      number_min 1 (map_of kvs ''quantity'') \<and>
      number_min 0 (map_of kvs ''price'') \<and>
      string_enum [''USD'', ''SGD''] (map_of kvs ''currency'') \<and>
      required_string (map_of kvs ''image'') \<and>
      required_string (map_of kvs ''finalImage'') \<and>
      required_string (map_of kvs ''originalImageUrl'') \<and>
      string_enum [''normal'', ''rgb''] (oprop (map_of kvs ''specs'') ''type'') \<and>
      required_string (oprop (map_of kvs ''specs'') ''size'') \<and>
      required_string (oprop (map_of kvs ''specs'') ''thickness''))"

text \<open>The timestamps are the server's: a payload's own keys of that name are not data.\<close>

definition data_fields :: "(string \<times> 'n json) list \<Rightarrow> (string \<times> 'n json) list" where
  "data_fields kvs = AList.delete ''createdAt'' (AList.delete ''updatedAt'' kvs)"

text \<open>\<open>cartItemSchema.statics.addToCart\<close>: \<open>this.create(cartItemData)\<close>\<close>

definition addToCart ::
  "'n::{zero,one,ord} cart_doc list \<Rightarrow> nat \<Rightarrow> 'n json \<Rightarrow>
     store_error + ('n cart_doc list \<times> 'n cart_doc)" where
  "addToCart db now cartItemData =
     (case cartItemData of
        JObj kvs \<Rightarrow>
          (let doc = \<lparr> doc_fields = with_defaults (data_fields kvs), createdAt = now, updatedAt = now \<rparr>
           in if \<not> schema_valid (doc_fields doc) then Inl ValidationError
              else if id_key doc \<in> set (map id_key db) then Inl DuplicateKey
              else Inr (db @ [doc], doc))
      | _ \<Rightarrow> Inl ValidationError)"

text \<open>Replace the first element that satisfies \<open>P\<close>.\<close>

fun update_first :: "('a \<Rightarrow> bool) \<Rightarrow> ('a \<Rightarrow> 'a) \<Rightarrow> 'a list \<Rightarrow> 'a list" where
  "update_first P f [] = []"
| "update_first P f (x # xs) = (if P x then f x # xs else x # update_first P f xs)"

fun remove_first :: "('a \<Rightarrow> bool) \<Rightarrow> 'a list \<Rightarrow> 'a list" where
  "remove_first P [] = []"
| "remove_first P (x # xs) = (if P x then xs else x # remove_first P xs)"

text \<open>\<open>{ ...updates, updatedAt: new Date() }\<close> applied to a document.\<close>

definition apply_updates :: "nat \<Rightarrow> 'n json \<Rightarrow> 'n cart_doc \<Rightarrow> 'n cart_doc" where
  "apply_updates now updates d =
     (case updates of
        JObj kvs \<Rightarrow> d \<lparr> doc_fields := AList.merge (doc_fields d) (data_fields kvs), updatedAt := now \<rparr>
      | _ \<Rightarrow> d \<lparr> updatedAt := now \<rparr>)"

text \<open>
  \<open>cartItemSchema.statics.updateCartItem\<close>:
  \<open>this.findOneAndUpdate({ id, userEmail }, { ...updates, updatedAt: new Date() }, { new: true })\<close>
\<close>

definition updateCartItem ::
  "'n cart_doc list \<Rightarrow> nat \<Rightarrow> 'n jsval \<Rightarrow> 'n jsval \<Rightarrow> 'n json \<Rightarrow>
     store_error + ('n cart_doc list \<times> 'n cart_doc option)" where
  "updateCartItem db now i userEmail updates =
     (case find (matches i userEmail) db of
        None \<Rightarrow> Inr (db, None)
      | Some d \<Rightarrow>
          if id_key (apply_updates now updates d) \<in> set (map id_key (remove_first (matches i userEmail) db))
          then Inl DuplicateKey
          else Inr (update_first (matches i userEmail) (apply_updates now updates) db,
                    Some (apply_updates now updates d)))"


section \<open>Adding an item to the cart (routes/cart.js)\<close>

record 'd response =
  res_status :: nat
  res_success :: bool
  res_message :: string
  res_data :: "'d option"

definition respond :: "nat \<Rightarrow> bool \<Rightarrow> string \<Rightarrow> 'd option \<Rightarrow> 'd response" where
  "respond st ok msg d = \<lparr> res_status = st, res_success = ok, res_message = msg, res_data = d \<rparr>"

text \<open>\<open>router.post('/')\<close>: add an item to the cart, or overwrite the one of the same id and owner.\<close>

definition post_cart ::
  "'n::{zero,one,ord} cart_doc list \<Rightarrow> nat \<Rightarrow> 'n json \<Rightarrow>
     'n cart_doc list \<times> 'n cart_doc response" where
  "post_cart db now body =
     (case sanitizeCartPayload body False of
        Inl validationError \<Rightarrow> (db, respond 400 False validationError None)
      | Inr processedData \<Rightarrow>
          (case findOne db (get_prop processedData ''id'') (get_prop processedData ''userEmail'') of
             Some existingItem \<Rightarrow>
               (case updateCartItem db now (get_prop processedData ''id'')
                       (get_prop processedData ''userEmail'') processedData of
                  Inl err \<Rightarrow> (db, respond 500 False ''Server error while adding item to cart'' None)
                | Inr (db', updatedItem) \<Rightarrow>
                    (db', respond 200 True ''Cart item updated successfully'' updatedItem))
           | None \<Rightarrow>
               (case addToCart db now processedData of
                  Inl err \<Rightarrow> (db, respond 500 False ''Server error while adding item to cart'' None)
                | Inr (db', newCartItem) \<Rightarrow>
                    (db', respond 201 True ''Item added to cart successfully'' (Some newCartItem)))))"


section \<open>Deleting a hosted image (utils/imageProcessor.js)\<close>







section \<open>Removing an item and summing a cart (routes/cart.js)\<close>









text \<open>A list of numbers added from the left, starting at 0, as \<open>reduce\<close> adds them.\<close>

definition sum_left :: "'n::{zero,plus} list \<Rightarrow> 'n" where
  "sum_left xs = foldl (+) 0 xs"



section \<open>Orders (models/Order.js, routes/order.js)\<close>

text \<open>
  The user-id deployment: a cart item is identified by the id the store generates,
  \<open>_id\<close> (here \<open>item_id\<close>), and owned by \<open>userId\<close>; its product data are typed as the schema
  types them. An order item is a copy of the product data with the id of the cart item it
  was taken from.
\<close>

record 'n product =
  name :: string
  quantity :: 'n
  price :: 'n
  currency :: string
  finalImage :: string
  originalImageUrl :: string
  mousepadType :: string
  mousepadSize :: string
  thickness :: string

record 'n cart_item = "'n product" +
  item_id :: string
  userId :: string

record 'n order_item = "'n product" +
  cartItemId :: "'n jsval"

record 'n order =
  order_id :: string
  order_userId :: string
  items :: "'n order_item list"
  subtotal :: 'n
  shipping :: 'n
  tax :: 'n
  order_total :: 'n
  order_currency :: string
  customerInfo :: "'n json"
  status :: string
  paymentStatus :: string
  paymentTransactionId :: "string option"

text \<open>\<open>v || d\<close>\<close>

definition or_else :: "'n::zero jsval \<Rightarrow> 'n json \<Rightarrow> 'n json" where
  "or_else v d = (case v of Some x \<Rightarrow> if truthy v then x else d | None \<Rightarrow> d)"

text \<open>\<open>obj.k\<close> where \<open>obj\<close> may be null or undefined: reading a property of either throws.\<close>

definition member :: "'n jsval \<Rightarrow> string \<Rightarrow> string + 'n jsval" where
  "member obj k =
     (case obj of
        None \<Rightarrow> Inl (''TypeError: Cannot read properties of undefined (reading '' @ k @ '')'')
      | Some JNull \<Rightarrow> Inl (''TypeError: Cannot read properties of null (reading '' @ k @ '')'')
      | Some v \<Rightarrow> Inr (get_prop v k))"

text \<open>\<open>xs.map(f)\<close> for an \<open>f\<close> that may throw: the first exception ends the loop.\<close>

fun map_throwing :: "('a \<Rightarrow> string + 'b) \<Rightarrow> 'a list \<Rightarrow> string + 'b list" where
  "map_throwing f [] = Inr []"
| "map_throwing f (x # xs) =
     and_then (f x) (\<lambda>y. and_then (map_throwing f xs) (\<lambda>ys. Inr (y # ys)))"

text \<open>\<open>CartItem.find({ _id: { $in: cartItemIds }, userId: userId })\<close>\<close>

definition find_owned :: "'n cart_item list \<Rightarrow> 'n jsval list \<Rightarrow> string \<Rightarrow> 'n cart_item list" where
  "find_owned cartDb cartItemIds uid =
     filter (\<lambda>ci. Some (JStr (item_id ci)) \<in> set cartItemIds \<and> userId ci = uid) cartDb"

text \<open>
  The body of \<open>items.map(item => { ... })\<close> in the order data: the cart item is looked up among
  the resolved ones by the requested id, and its fields are copied. A lookup that finds
  nothing returns undefined, and reading \<open>cartItem.name\<close> then throws.
\<close>

definition snapshot_item :: "'n cart_item list \<Rightarrow> 'n json \<Rightarrow> string + 'n order_item" where
  "snapshot_item cartItems item =
     and_then (member (Some item) ''cartItemId'') (\<lambda>requested.
       case find (\<lambda>ci. Some (JStr (item_id ci)) = requested) cartItems of
         None \<Rightarrow> Inl ''TypeError: Cannot read properties of undefined (reading name)''
       | Some cartItem \<Rightarrow>
           Inr \<lparr> name = name cartItem,
                 quantity = quantity cartItem,
                 price = price cartItem,
                 currency = currency cartItem,
                 finalImage = finalImage cartItem,
                 originalImageUrl = originalImageUrl cartItem,
                 mousepadType = mousepadType cartItem,
                 mousepadSize = mousepadSize cartItem,
                 thickness = thickness cartItem,
                 cartItemId = requested \<rparr>)"

text \<open>The customer block of the order data: \<open>customerInfo\<close> and its \<open>address\<close> are read through.\<close>

definition put :: "string \<Rightarrow> 'n jsval \<Rightarrow> (string \<times> 'n json) list" where
  "put k v = (case v of None \<Rightarrow> [] | Some x \<Rightarrow> [(k, x)])"

definition customer_block :: "'n::zero jsval \<Rightarrow> string + 'n json" where
  "customer_block info =
     and_then (member info ''firstName'') (\<lambda>firstName.
     and_then (member info ''lastName'') (\<lambda>lastName.
     and_then (member info ''email'') (\<lambda>email.
     and_then (member info ''phone'') (\<lambda>phone.
     and_then (member info ''address'') (\<lambda>address.
     and_then (member address ''street'') (\<lambda>street.
     and_then (member address ''city'') (\<lambda>city.
     and_then (member address ''state'') (\<lambda>state.
     and_then (member address ''zipCode'') (\<lambda>zipCode.
     and_then (member address ''country'') (\<lambda>country.
     and_then (member info ''additionalNotes'') (\<lambda>additionalNotes.
       Inr (JObj (put ''firstName'' firstName @ put ''lastName'' lastName @ put ''email'' email @
                  put ''phone'' phone @
                  [(''address'', JObj (put ''street'' street @ put ''city'' city @ put ''state'' state @
                                       put ''zipCode'' zipCode @
                                       [(''country'', or_else country (JStr ''United States''))])),
                   (''additionalNotes'', or_else additionalNotes (JStr ''''))])))))))))))))"

text \<open>
  \<open>Order.createOrder\<close>: \<open>this.create(orderData)\<close>. The schema requires the four amounts to be
  numbers that are at least 0 and the currency to be USD or SGD; an amount of another type
  is refused (casting is not modelled). The store supplies the new order's id.
\<close>

definition amount :: "'n::{zero,ord} json \<Rightarrow> string + 'n" where
  "amount v = (case v of JNum n \<Rightarrow> if 0 \<le> n then Inr n else Inl ''ValidationError'' | _ \<Rightarrow> Inl ''ValidationError'')"

definition currency_code :: "'n json \<Rightarrow> string + string" where
  "currency_code v =
     (case v of JStr s \<Rightarrow> if s \<in> set [''USD'', ''SGD''] then Inr s else Inl ''ValidationError''
      | _ \<Rightarrow> Inl ''ValidationError'')"

text \<open>
  \<open>router.post('/')\<close> of the order routes. The verdict of the express-validator chain is the
  argument \<open>validate\<close> (the list of its errors), so every statement below holds whatever the
  validators accept. \<open>new_id\<close> is the id the store gives the order. A thrown exception is
  answered with status 500 and its message.
\<close>

definition post_order ::
  "('n::{zero,ord} json \<Rightarrow> string list) \<Rightarrow> 'n cart_item list \<Rightarrow> 'n order list \<Rightarrow> string \<Rightarrow> string \<Rightarrow>
     'n json \<Rightarrow> 'n order list \<times> 'n order response" where
  "post_order validate cartDb orders new_id uid body =
     (if validate body \<noteq> [] then (orders, respond 400 False ''validation failed'' None)
      else
        (case get_prop body ''items'' of
           Some (JArr its) \<Rightarrow>
             (case map_throwing (\<lambda>item. member (Some item) ''cartItemId'') its of
                Inl thrown \<Rightarrow> (orders, respond 500 False thrown None)
              | Inr cartItemIds \<Rightarrow>
                  (let cartItems = find_owned cartDb cartItemIds uid in
                   if length cartItems \<noteq> length cartItemIds
                   then (orders, respond 400 False ''Some cart items do not belong to you or do not exist'' None)
                   else
                     (case
                        and_then (map_throwing (snapshot_item cartItems) its) (\<lambda>order_items.
                        and_then (customer_block (get_prop body ''customerInfo'')) (\<lambda>customer.
                        and_then (amount (or_else (get_prop body ''subtotal'') (JNum 0))) (\<lambda>sub.
                        and_then (amount (or_else (get_prop body ''shipping'') (JNum 0))) (\<lambda>ship.
                        and_then (amount (or_else (get_prop body ''tax'') (JNum 0))) (\<lambda>tx.
                        and_then (amount (or_else (get_prop body ''total'') (JNum 0))) (\<lambda>tot.
                        and_then (currency_code (or_else (get_prop body ''currency'') (JStr ''USD''))) (\<lambda>cur.
                          Inr \<lparr> order_id = new_id, order_userId = uid, items = order_items,
                                subtotal = sub, shipping = ship, tax = tx, order_total = tot,
                                order_currency = cur, customerInfo = customer,
                                status = ''pending'', paymentStatus = ''pending'',
                                paymentTransactionId = None \<rparr>)))))))
                      of
                        Inl thrown \<Rightarrow> (orders, respond 500 False thrown None)
                      | Inr order \<Rightarrow>
                          (orders @ [order], respond 201 True ''Order created successfully'' (Some order)))))
         | _ \<Rightarrow> (orders, respond 500 False ''TypeError: items.map is not a function'' None)))"

text \<open>
  An order entry that is a copy of a cart item: the request's \<open>cartItemId\<close> is the item's id
  and the nine product fields are the item's.
\<close>

definition copied_from :: "'n cart_item \<Rightarrow> 'n json \<Rightarrow> 'n order_item \<Rightarrow> bool" where
  "copied_from ci item entry =
     (get_prop item ''cartItemId'' = Some (JStr (item_id ci)) \<and>
      cartItemId entry = Some (JStr (item_id ci)) \<and>
      name entry = name ci \<and> quantity entry = quantity ci \<and> price entry = price ci \<and>
      currency entry = currency ci \<and> finalImage entry = finalImage ci \<and>
      originalImageUrl entry = originalImageUrl ci \<and> mousepadType entry = mousepadType ci \<and>
      mousepadSize entry = mousepadSize ci \<and> thickness entry = thickness ci)"

section \<open>The notifier and the payment status (utils/emailService.js, routes/order.js)\<close>

text \<open>
  The notifier (utils/emailService.js). Its surroundings are the fields of \<open>email_env\<close>: the
  configuration, what reading the template file gives (\<open>Inl\<close> when \<open>readFileSync\<close> throws),
  the composition of the mail from the template and the order (date and currency
  formatting, placeholder replacement and the construction of the request, any of which may
  throw), and the mail service's \<open>sendTransacEmail\<close>, which returns a message id or throws.
\<close>

record 'o email_env =
  enabled :: bool
  apiKey :: string
  readTemplate :: "string + string"
  compose :: "string \<Rightarrow> 'o \<Rightarrow> string + string"
  sendTransacEmail :: "string \<Rightarrow> string + string"

record email_result =
  success :: bool
  messageId :: "string option"
  message :: "string option"
  error :: "string option"

text \<open>\<open>loadEmailTemplate\<close>: the file's text, or null when reading it throws.\<close>

definition loadEmailTemplate :: "'o email_env \<Rightarrow> string option" where
  "loadEmailTemplate env = (case readTemplate env of Inl err \<Rightarrow> None | Inr t \<Rightarrow> Some t)"

definition sendOrderConfirmationEmail :: "'o email_env \<Rightarrow> 'o \<Rightarrow> string + email_result" where
  "sendOrderConfirmationEmail env order =
     (if \<not> enabled env
      then Inr \<lparr> success = False, messageId = None, message = Some ''Email service is disabled'', error = None \<rparr>
      else if apiKey env = []
      then Inr \<lparr> success = False, messageId = None, message = Some ''Email API key not configured'', error = None \<rparr>
      else
        try_catch
          (case loadEmailTemplate env of
             None \<Rightarrow> Inl ''Failed to load email template''
           | Some template \<Rightarrow>
               if template = [] then Inl ''Failed to load email template''
               else and_then (compose env template order) (\<lambda>sendSmtpEmail.
                    and_then (sendTransacEmail env sendSmtpEmail) (\<lambda>result.
                      Inr \<lparr> success = True, messageId = Some result,
                            message = Some ''Email sent successfully'', error = None \<rparr>)))
          (\<lambda>err. Inr \<lparr> success = False, messageId = None, message = None,
                       error = Some (if err \<noteq> [] then err else ''Failed to send email'') \<rparr>))"

text \<open>\<open>Order.getOrderById\<close>: \<open>this.findOne({ _id: orderId })\<close>\<close>

definition getOrderById :: "'n order list \<Rightarrow> string \<Rightarrow> 'n order option" where
  "getOrderById orders oid = find (\<lambda>order. order_id order = oid) orders"

text \<open>
  The validators of the payment-status route: \<open>status\<close> is one of the five payment
  statuses, \<open>paymentTransactionId\<close> is absent or a string. A status that is not a string is
  taken to fail the validator.
\<close>

definition payment_statuses :: "string list" where
  "payment_statuses = [''pending'', ''processing'', ''completed'', ''failed'', ''refunded'']"

definition payment_status_errors :: "'n json \<Rightarrow> string list" where
  "payment_status_errors body =
     (case get_prop body ''status'' of
        Some (JStr s) \<Rightarrow> if s \<in> set payment_statuses then [] else [''Invalid payment status'']
      | _ \<Rightarrow> [''Invalid payment status'']) @
     (case get_prop body ''paymentTransactionId'' of
        None \<Rightarrow> []
      | Some (JStr t) \<Rightarrow> []
      | Some _ \<Rightarrow> [''Invalid value''])"

text \<open>
  \<open>updateData\<close> applied with \<open>$set\<close>: the payment status, the order status it entails, and
  the transaction id when one is supplied.
\<close>

definition set_payment_status :: "string \<Rightarrow> 'n::zero jsval \<Rightarrow> 'n order \<Rightarrow> 'n order" where
  "set_payment_status new_status transactionId order =
     (let o1 = order \<lparr> paymentStatus := new_status \<rparr>;
          o2 = (if new_status = ''completed'' then o1 \<lparr> status := ''processing'' \<rparr>
                else if new_status = ''failed'' then o1 \<lparr> status := ''paymentFailed'' \<rparr>
                else o1)
      in case transactionId of
           Some (JStr t) \<Rightarrow> if truthy transactionId then o2 \<lparr> paymentTransactionId := Some t \<rparr> else o2
         | _ \<Rightarrow> o2)"

text \<open>
  \<open>router.patch('/:_id/payment-status')\<close> of the user-id deployment. The notifier is an
  argument; its promise is not awaited, and a rejection is logged by \<open>.catch\<close>. The third
  component of the result is that log.
\<close>

definition patch_payment_status ::
  "('n::zero order \<Rightarrow> string + email_result) \<Rightarrow> 'n order list \<Rightarrow> string \<Rightarrow> string \<Rightarrow> 'n json \<Rightarrow>
     'n order list \<times> 'n order response \<times> string list" where
  "patch_payment_status notify orders oid uid body =
     (if payment_status_errors body \<noteq> [] then (orders, respond 400 False ''validation failed'' None, [])
      else
        (case getOrderById orders oid of
           None \<Rightarrow> (orders, respond 404 False ''Order not found'' None, [])
         | Some order \<Rightarrow>
             if order_userId order \<noteq> uid
             then (orders, respond 403 False ''Not authorized to update this order'' None, [])
             else
               (case get_prop body ''status'' of
                  Some (JStr new_status) \<Rightarrow>
                    (let updatedOrder = set_payment_status new_status (get_prop body ''paymentTransactionId'') order
                     in (update_first (\<lambda>x. order_id x = order_id order) (\<lambda>x. updatedOrder) orders,
                         respond 200 True ''Order payment status updated successfully'' (Some updatedOrder),
                         (case notify updatedOrder of
                            Inl err \<Rightarrow> [''Failed to send order confirmation email: '' @ err]
                          | Inr _ \<Rightarrow> [])))
                | _ \<Rightarrow> (orders, respond 500 False ''CastError'' None, []))))"

text \<open>
  The same route in the authenticated deployment (routes/order.js): the owner check is
  waived for the role \<open>admin\<close>, and no mail is sent.
\<close>

definition patch_payment_status_auth ::
  "'n::zero order list \<Rightarrow> string \<Rightarrow> string \<Rightarrow> string \<Rightarrow> 'n json \<Rightarrow> 'n order list \<times> 'n order response" where
  "patch_payment_status_auth orders oid uid role body =
     (if payment_status_errors body \<noteq> [] then (orders, respond 400 False ''validation failed'' None)
      else
        (case getOrderById orders oid of
           None \<Rightarrow> (orders, respond 404 False ''Order not found'' None)
         | Some order \<Rightarrow>
             if order_userId order \<noteq> uid \<and> role \<noteq> ''admin''
             then (orders, respond 403 False ''Not authorized to update this order'' None)
             else
               (case get_prop body ''status'' of
                  Some (JStr new_status) \<Rightarrow>
                    (let updatedOrder = set_payment_status new_status (get_prop body ''paymentTransactionId'') order
                     in (update_first (\<lambda>x. order_id x = order_id order) (\<lambda>x. updatedOrder) orders,
                         respond 200 True ''Order payment status updated successfully'' (Some updatedOrder)))
                | _ \<Rightarrow> (orders, respond 500 False ''CastError'' None))))"

section \<open>Example requests and stores\<close>

text \<open>
  A payload as the customiser sends it, with embedded images left in its configuration, and a
  collection that already holds an item of the same id and owner.
\<close>

definition example_item :: "int json" where
  "example_item = JObj
     [(''userEmail'', JStr ''ann@example.com''), (''id'', JStr ''a1''), (''price'', JNum 10),
      (''quantity'', JNum 2), (''currency'', JStr ''USD''),
      (''image'', JStr ''https://res.cloudinary.com/demo/image/upload/v1/mousepad/main/a.jpg''),
      (''finalImage'', JStr ''https://res.cloudinary.com/demo/image/upload/v1/mousepad/final/a.jpg''),
      (''originalImageUrl'', JStr ''https://res.cloudinary.com/demo/image/upload/v1/mousepad/orig/a.jpg''),
      (''specs'', JObj [(''type'', JStr ''normal''), (''size'', JStr ''400x900''), (''thickness'', JStr ''3mm'')]),
      (''configuration'', JObj
         [(''mousepadType'', JStr ''normal''),
          (''imageSettings'', JObj [(''zoom'', JNum 2), (''uploadedImage'', JStr ''data:image/png;base64,AAAA'')]),
          (''logoFile'', JStr ''data:image/png;base64,BBBB''),
          (''uploadedImages'', JArr [JStr ''data:image/png;base64,CCCC''])])]"

definition stored_item :: "int cart_doc" where
  "stored_item = \<lparr> doc_fields = [(''userEmail'', JStr ''ann@example.com''), (''id'', JStr ''a1''), (''price'', JNum 8)],
       createdAt = 1, updatedAt = 1 \<rparr>"

definition other_owner_item :: "int json" where
  "other_owner_item = JObj
     [(''userEmail'', JStr ''bob@example.com''), (''id'', JStr ''a1''), (''price'', JNum 12),
      (''image'', JStr ''https://res.cloudinary.com/demo/image/upload/v1/mousepad/main/b.jpg''),
      (''finalImage'', JStr ''https://res.cloudinary.com/demo/image/upload/v1/mousepad/final/b.jpg''),
      (''originalImageUrl'', JStr ''https://res.cloudinary.com/demo/image/upload/v1/mousepad/orig/b.jpg''),
      (''specs'', JObj [(''type'', JStr ''rgb''), (''size'', JStr ''400x900''), (''thickness'', JStr ''4mm'')])]"

text \<open>A payload whose \<open>image\<close> is a number and whose \<open>finalImage\<close> is inline data.\<close>

definition inline_after_number :: "int json" where
  "inline_after_number = JObj
     [(''userEmail'', JStr ''ann@example.com''), (''id'', JStr ''a2''), (''price'', JNum 10),
      (''image'', JNum 5),
      (''finalImage'', JStr ''data:image/png;base64,AAAA''),
      (''originalImageUrl'', JStr ''https://res.cloudinary.com/demo/image/upload/v1/mousepad/orig/a.jpg'')]"

text \<open>A payload whose \<open>image\<close> is hosted and whose \<open>finalImage\<close> is inline data.\<close>

definition inline_final_item :: "int json" where
  "inline_final_item = JObj
     [(''userEmail'', JStr ''ann@example.com''), (''id'', JStr ''a3''), (''price'', JNum 10),
      (''image'', JStr ''https://res.cloudinary.com/demo/image/upload/v1/mousepad/main/a.jpg''),
      (''finalImage'', JStr ''data:image/png;base64,AAAA''),
      (''originalImageUrl'', JStr ''https://res.cloudinary.com/demo/image/upload/v1/mousepad/orig/a.jpg'')]"


text \<open>Two cart items of different owners, and checkout requests of the first owner.\<close>

definition pad_a :: "int cart_item" where
  "pad_a = \<lparr> name = ''Custom Mousepad'', quantity = 2, price = 25, currency = ''USD'',
             finalImage = ''https://res.cloudinary.com/demo/image/upload/v1/mousepad/final/a.jpg'',
             originalImageUrl = ''https://res.cloudinary.com/demo/image/upload/v1/mousepad/orig/a.jpg'',
             mousepadType = ''rgb'', mousepadSize = ''400x900'', thickness = ''4mm'',
             item_id = ''65a000000000000000000001'', userId = ''u1'' \<rparr>"

definition pad_b :: "int cart_item" where
  "pad_b = \<lparr> name = ''Desk Mat'', quantity = 1, price = 40, currency = ''USD'',
             finalImage = ''https://res.cloudinary.com/demo/image/upload/v1/mousepad/final/b.jpg'',
             originalImageUrl = ''https://res.cloudinary.com/demo/image/upload/v1/mousepad/orig/b.jpg'',
             mousepadType = ''normal'', mousepadSize = ''900x400'', thickness = ''3mm'',
             item_id = ''65a000000000000000000002'', userId = ''u2'' \<rparr>"

definition customer :: "int json" where
  "customer = JObj
     [(''firstName'', JStr ''Ann''), (''lastName'', JStr ''Lee''), (''email'', JStr ''ann@example.com''),
      (''phone'', JStr ''555-0100''),
      (''address'', JObj [(''street'', JStr ''1 Main St''), (''city'', JStr ''Springfield''),
                          (''state'', JStr ''IL''), (''zipCode'', JStr ''62701'')])]"

text \<open>The request names the first owner's item and carries a name and a price of its own.\<close>

definition tampered_order_request :: "int json" where
  "tampered_order_request = JObj
     [(''items'', JArr [JObj [(''cartItemId'', JStr ''65a000000000000000000001''),
                              (''name'', JStr ''Free Mousepad''), (''price'', JNum 0), (''quantity'', JNum 9)]]),
      (''subtotal'', JNum 50), (''total'', JNum 50), (''customerInfo'', customer)]"



text \<open>A stored order of the first owner, still pending, and payment-status requests for it.\<close>

definition pending_order :: "int order" where
  "pending_order = \<lparr> order_id = ''66b000000000000000000001'', order_userId = ''u1'', items = [],
       subtotal = 50, shipping = 0, tax = 0, order_total = 50, order_currency = ''USD'',
       customerInfo = customer, status = ''pending'', paymentStatus = ''pending'',
       paymentTransactionId = None \<rparr>"

definition completed_request :: "int json" where
  "completed_request = JObj [(''status'', JStr ''completed''), (''paymentTransactionId'', JStr ''tx-1'')]"

definition refunded_request :: "int json" where
  "refunded_request = JObj [(''status'', JStr ''refunded'')]"

text \<open>A mail service that refuses the connection, behind a working configuration.\<close>

definition failing_mail_env :: "int order email_env" where
  "failing_mail_env = \<lparr> enabled = True, apiKey = ''xkeysib-1'', readTemplate = Inr ''<html>{{ORDER_ID}}</html>'',
       compose = (\<lambda>t order. Inr t), sendTransacEmail = (\<lambda>mail. Inl ''connect ECONNREFUSED'') \<rparr>"

section \<open>Verification: the sanitiser\<close>

lemma set_prop_same: "set_prop x f (get_prop x f) = x"
proof (cases x)
  case (JObj kvs)
  show ?thesis
  proof (cases "map_of kvs f")
    case None
    then have "f \<notin> fst ` set kvs" by (simp add: map_of_eq_None_iff)
    with None JObj show ?thesis by (simp add: delete_id)
  next
    case (Some v)
    with JObj show ?thesis by (simp add: update_triv)
  qed
qed simp_all

lemma check_supplied_Inr: "check_supplied x f p = Inr y \<Longrightarrow> y = x"
  by (auto simp: check_supplied_def and_then_def ensureHostedImage_def set_prop_same split: if_splits sum.splits)

lemma check_required_Inr:
  "check_required x f = Inr y \<longleftrightarrow> (y = x \<and> hosted (get_prop x f))"
  by (auto simp: check_required_def and_then_def ensureHostedImage_def set_prop_same hosted_def split: if_splits sum.splits)

lemma sanitize_full_Inr:
  "sanitizeCartPayload payload False = Inr s \<Longrightarrow>
     s = strip_uploads (strip_image_settings payload) \<and>
     hosted (get_prop payload ''image'') \<and> hosted (get_prop payload ''finalImage'') \<and>
     hosted (get_prop payload ''originalImageUrl'')"
  unfolding sanitizeCartPayload_def clonePayload_def and_then_def
  by (auto split: sum.splits dest!: check_supplied_Inr simp: check_required_Inr)


lemma get_set_prop:
  "get_prop (set_prop x k v) k' = (if k' = k \<and> is_object x then v else get_prop x k')"
  by (cases x; cases v) (auto simp: update_conv' delete_conv')





lemma strip_uploads_other: "k \<noteq> ''configuration'' \<Longrightarrow> get_prop (strip_uploads x) k = get_prop x k"
  by (auto simp: strip_uploads_def get_set_prop split: option.splits)

lemma strip_image_settings_other:
  "k \<noteq> ''configuration'' \<Longrightarrow> get_prop (strip_image_settings x) k = get_prop x k"
  by (auto simp: strip_image_settings_def get_set_prop split: option.splits)







section \<open>Verification: the cart item collection\<close>

lemma map_of_data_fields:
  "map_of (data_fields kvs) k = (if k = ''createdAt'' \<or> k = ''updatedAt'' then None else map_of kvs k)"
  by (simp add: data_fields_def delete_conv')

lemma map_of_default_to:
  "map_of (default_to k v kvs) k' = (if k' = k \<and> map_of kvs k = None then Some v else map_of kvs k')"
  by (simp add: default_to_def update_conv')

lemma map_of_with_defaults_Some:
  "map_of kvs k = Some v \<Longrightarrow> map_of (with_defaults kvs) k = Some v"
  by (auto simp: with_defaults_def map_of_default_to)

lemma map_of_with_defaults_other:
  "k \<notin> {''currency'', ''quantity'', ''name''} \<Longrightarrow> map_of (with_defaults kvs) k = map_of kvs k"
  by (simp add: with_defaults_def map_of_default_to)

lemma fields_apply_updates:
  "map_of (doc_fields (apply_updates now updates d)) k =
     (if k \<noteq> ''createdAt'' \<and> k \<noteq> ''updatedAt'' \<and> get_prop updates k \<noteq> None
      then get_prop updates k else map_of (doc_fields d) k)"
  by (cases updates) (auto simp: apply_updates_def merge_conv' map_of_data_fields map_add_def split: option.splits)


lemma id_key_apply_updates:
  "field_eq d ''id'' (get_prop updates ''id'') \<Longrightarrow> id_key (apply_updates now updates d) = id_key d"
  by (auto simp: field_eq_def id_key_def fields_apply_updates)


lemma matches_id_key: "matches i e d \<Longrightarrow> id_key d = null_if_missing i"
  by (simp add: matches_def field_eq_def id_key_def)

lemma map_update_first:
  "(\<And>x. P x \<Longrightarrow> g (f x) = g x) \<Longrightarrow> map g (update_first P f xs) = map g xs"
  by (induction xs) auto

lemma find_update_first:
  "find P xs = Some d \<Longrightarrow> P (f d) \<Longrightarrow> find P (update_first P f xs) = Some (f d)"
  by (induction xs) (auto split: if_splits)




lemma find_Some_set: "find P xs = Some d \<Longrightarrow> d \<in> set xs \<and> P d"
  by (induction xs) (auto split: if_splits)

lemma remove_first_distinct:
  "distinct (map g xs) \<Longrightarrow> find P xs = Some d \<Longrightarrow> g d \<notin> set (map g (remove_first P xs))"
proof (induction xs)
  case Nil
  then show ?case by simp
next
  case (Cons a xs)
  show ?case
  proof (cases "P a")
    case True
    with Cons.prems show ?thesis by auto
  next
    case False
    with Cons.prems have d: "find P xs = Some d" and dis: "distinct (map g xs)" and a: "g a \<notin> g ` set xs"
      by auto
    from d have "d \<in> set xs" by (simp add: find_Some_set)
    with a have "g d \<noteq> g a" by (metis image_eqI)
    with Cons.IH [OF dis d] False show ?thesis by simp
  qed
qed

lemma set_remove_first_subset: "set (remove_first P xs) \<subseteq> set xs"
  by (induction xs) auto

lemma distinct_remove_first: "distinct (map g xs) \<Longrightarrow> distinct (map g (remove_first P xs))"
proof (induction xs)
  case Nil
  then show ?case by simp
next
  case (Cons a xs)
  have "g ` set (remove_first P xs) \<subseteq> g ` set xs"
    using set_remove_first_subset [of P xs] by blast
  with Cons show ?case by auto
qed



section \<open>Verification: the POST cart route\<close>

lemma post_cart_reject:
  "sanitizeCartPayload body False = Inl e \<Longrightarrow> post_cart db now body = (db, respond 400 False e None)"
  by (simp add: post_cart_def)

lemma updateCartItem_same_key:
  assumes "unique_ids db" and "find (matches (get_prop s ''id'') (get_prop s ''userEmail'')) db = Some d"
  shows "updateCartItem db now (get_prop s ''id'') (get_prop s ''userEmail'') s =
           Inr (update_first (matches (get_prop s ''id'') (get_prop s ''userEmail'')) (apply_updates now s) db,
                Some (apply_updates now s d))"
proof -
  from assms(2) have m: "matches (get_prop s ''id'') (get_prop s ''userEmail'') d"
    by (simp add: find_Some_set)
  then have "id_key (apply_updates now s d) = id_key d"
    by (simp add: matches_def id_key_apply_updates)
  moreover have "id_key d \<notin> set (map id_key (remove_first (matches (get_prop s ''id'') (get_prop s ''userEmail'')) db))"
    using assms unfolding unique_ids_def by (rule remove_first_distinct)
  ultimately show ?thesis using assms(2) by (simp add: updateCartItem_def)
qed

lemma post_cart_update:
  assumes "unique_ids db" and "sanitizeCartPayload body False = Inr s"
    and "findOne db (get_prop s ''id'') (get_prop s ''userEmail'') = Some d"
  shows "post_cart db now body =
           (update_first (matches (get_prop s ''id'') (get_prop s ''userEmail'')) (apply_updates now s) db,
            respond 200 True ''Cart item updated successfully'' (Some (apply_updates now s d)))"
  using assms updateCartItem_same_key [of db s d now]
  by (simp add: post_cart_def findOne_def)

lemma post_cart_create:
  assumes "sanitizeCartPayload body False = Inr s"
    and "findOne db (get_prop s ''id'') (get_prop s ''userEmail'') = None"
  shows "post_cart db now body =
           (case addToCart db now s of
              Inl err \<Rightarrow> (db, respond 500 False ''Server error while adding item to cart'' None)
            | Inr (db', newCartItem) \<Rightarrow>
                (db', respond 201 True ''Item added to cart successfully'' (Some newCartItem)))"
  using assms by (simp add: post_cart_def)

lemma addToCart_Inr:
  "addToCart db now s = Inr (db', d) \<Longrightarrow>
     (\<exists>kvs. s = JObj kvs \<and> doc_fields d = with_defaults (data_fields kvs)) \<and>
     createdAt d = now \<and> updatedAt d = now \<and> db' = db @ [d] \<and>
     schema_valid (doc_fields d) \<and> id_key d \<notin> set (map id_key db)"
  by (cases s) (auto simp: addToCart_def Let_def split: if_splits)

lemma addToCart_unique_ids:
  "unique_ids db \<Longrightarrow> addToCart db now s = Inr (db', d) \<Longrightarrow> unique_ids db'"
  by (auto simp: unique_ids_def dest!: addToCart_Inr)

lemma update_unique_ids:
  assumes "unique_ids db"
  shows "unique_ids (update_first (matches (get_prop s ''id'') (get_prop s ''userEmail'')) (apply_updates now s) db)"
proof -
  have "map id_key (update_first (matches (get_prop s ''id'') (get_prop s ''userEmail'')) (apply_updates now s) db)
          = map id_key db"
    by (rule map_update_first) (simp add: matches_def id_key_apply_updates)
  with assms show ?thesis by (simp add: unique_ids_def)
qed

lemma post_cart_unique_ids:
  assumes "unique_ids db" and "post_cart db now body = (db', r)"
  shows "unique_ids db'"
proof (cases "sanitizeCartPayload body False")
  case (Inl e)
  with assms show ?thesis by (simp add: post_cart_reject)
next
  case (Inr s)
  show ?thesis
  proof (cases "findOne db (get_prop s ''id'') (get_prop s ''userEmail'')")
    case None
    show ?thesis
    proof (cases "addToCart db now s")
      case (Inl err)
      with assms Inr None show ?thesis by (simp add: post_cart_create)
    next
      case (Inr res)
      obtain db2 d where res: "res = (db2, d)" by (cases res)
      with assms \<open>sanitizeCartPayload body False = Inr s\<close> None Inr have "db' = db2"
        by (simp add: post_cart_create)
      with assms(1) Inr res show ?thesis by (simp add: addToCart_unique_ids)
    qed
  next
    case (Some d)
    with assms Inr show ?thesis by (auto simp: post_cart_update update_unique_ids)
  qed
qed


lemma field_eq_id_key: "field_eq x ''id'' i \<longleftrightarrow> id_key x = null_if_missing i"
  by (simp add: field_eq_def id_key_def)



lemma created_doc_fields:
  assumes "addToCart db now s = Inr (db', d)" and "k \<noteq> ''createdAt''" and "k \<noteq> ''updatedAt''"
    and "get_prop s k \<noteq> None"
  shows "map_of (doc_fields d) k = get_prop s k"
proof -
  from assms(1) obtain kvs where s: "s = JObj kvs" and f: "doc_fields d = with_defaults (data_fields kvs)"
    using addToCart_Inr by blast
  from assms(4) s obtain v where v: "map_of kvs k = Some v" by auto
  with assms(2,3) have "map_of (data_fields kvs) k = Some v" by (simp add: map_of_data_fields)
  then have "map_of (with_defaults (data_fields kvs)) k = Some v" by (rule map_of_with_defaults_Some)
  with s f v show ?thesis by simp
qed

lemma created_doc_matches:
  assumes "addToCart db now s = Inr (db', d)"
  shows "matches (get_prop s ''id'') (get_prop s ''userEmail'') d"
proof -
  from assms(1) obtain kvs where s: "s = JObj kvs" and f: "doc_fields d = with_defaults (data_fields kvs)"
    using addToCart_Inr by blast
  then show ?thesis
    by (simp add: matches_def field_eq_def map_of_with_defaults_other map_of_data_fields)
qed

lemma respond_sel [simp]:
  "res_status (respond st ok msg d) = st" "res_success (respond st ok msg d) = ok"
  "res_message (respond st ok msg d) = msg" "res_data (respond st ok msg d) = d"
  by (simp_all add: respond_def)




lemma unique_ids_same_key:
  "unique_ids db \<Longrightarrow> x \<in> set db \<Longrightarrow> d \<in> set db \<Longrightarrow> id_key x = id_key d \<Longrightarrow> x = d"
  unfolding unique_ids_def by (meson distinct_map inj_onD)

lemma findOne_None_other_owner:
  assumes "unique_ids db" and "d \<in> set db" and "field_eq d ''id'' i" and "\<not> field_eq d ''userEmail'' e"
  shows "findOne db i e = None"
proof (cases "findOne db i e")
  case None
  then show ?thesis .
next
  case (Some x)
  then have x: "x \<in> set db" "matches i e x" by (simp_all add: findOne_def find_Some_set)
  then have "id_key x = id_key d" using assms(3) by (simp add: matches_id_key field_eq_id_key)
  with assms(1,2) x(1) have "x = d" by (simp add: unique_ids_same_key)
  with x(2) assms(4) show ?thesis by (simp add: matches_def)
qed

lemma addToCart_duplicate:
  assumes "d \<in> set db" and "field_eq d ''id'' (get_prop s ''id'')"
  shows "\<exists>err. addToCart db now s = Inl err"
proof (cases "addToCart db now s")
  case (Inl err)
  then show ?thesis by blast
next
  case (Inr res)
  obtain db2 d2 where res: "res = (db2, d2)" by (cases res)
  with Inr have a: "addToCart db now s = Inr (db2, d2)" by simp
  then have "id_key d2 = null_if_missing (get_prop s ''id'')"
    using created_doc_matches matches_id_key by blast
  also have "\<dots> = id_key d" using assms(2) by (simp add: field_eq_id_key)
  finally have "id_key d2 \<in> set (map id_key db)" using assms(1) by simp
  moreover from a have "id_key d2 \<notin> set (map id_key db)" using addToCart_Inr by blast
  ultimately show ?thesis by blast
qed

lemma post_cart_other_owner:
  assumes "unique_ids db" and "sanitizeCartPayload body False = Inr s" and "d \<in> set db"
    and "field_eq d ''id'' (get_prop s ''id'')" and "\<not> field_eq d ''userEmail'' (get_prop s ''userEmail'')"
  shows "post_cart db now body = (db, respond 500 False ''Server error while adding item to cart'' None)"
proof -
  have "findOne db (get_prop s ''id'') (get_prop s ''userEmail'') = None"
    using assms(1,3,4,5) by (rule findOne_None_other_owner)
  moreover obtain err where "addToCart db now s = Inl err"
    using addToCart_duplicate [OF assms(3,4)] by blast
  ultimately show ?thesis using assms(2) by (simp add: post_cart_create)
qed

text \<open>
  Claim C9. The schema declares \<open>id\<close> unique with no reference to the owner, so the index
  spans the whole collection. A POST request keeps the index intact: afterwards any two
  stored items, at different positions, have different ids, whoever owns them. And a
  payload that reuses the id of an item stored for another owner finds no item of its own
  to update, is refused by the collection on \<open>create\<close>, and is answered with status 500
  while the collection stays as it was.
\<close>

theorem cart_id_unique_across_owners:
  assumes "unique_ids db" and "post_cart db now body = (db', r)"
  shows "(\<forall>m n. m < n \<and> n < length db' \<longrightarrow> id_key (db' ! m) \<noteq> id_key (db' ! n)) \<and>
         (\<forall>s d. sanitizeCartPayload body False = Inr s \<and> d \<in> set db \<and>
                field_eq d ''id'' (get_prop s ''id'') \<and>
                \<not> field_eq d ''userEmail'' (get_prop s ''userEmail'') \<longrightarrow>
                db' = db \<and> r = respond 500 False ''Server error while adding item to cart'' None)"
proof (intro conjI allI impI)
  fix m n
  assume mn: "m < n \<and> n < length db'"
  have "distinct (map id_key db')"
    using post_cart_unique_ids [OF assms] by (simp add: unique_ids_def)
  with mn have "map id_key db' ! m \<noteq> map id_key db' ! n"
    by (simp add: distinct_conv_nth)
  with mn show "id_key (db' ! m) \<noteq> id_key (db' ! n)" by simp
next
  fix s d
  assume h: "sanitizeCartPayload body False = Inr s \<and> d \<in> set db \<and>
                field_eq d ''id'' (get_prop s ''id'') \<and>
                \<not> field_eq d ''userEmail'' (get_prop s ''userEmail'')"
  then have "post_cart db now body = (db, respond 500 False ''Server error while adding item to cart'' None)"
    using assms(1) by (blast intro: post_cart_other_owner)
  with assms(2) show "db' = db" "r = respond 500 False ''Server error while adding item to cart'' None"
    by simp_all
qed

theorem cart_id_unique_across_owners_witness:
  "unique_ids [stored_item] \<and>
   sanitizeCartPayload other_owner_item False = Inr other_owner_item \<and>
   field_eq stored_item ''id'' (get_prop other_owner_item ''id'') \<and>
   \<not> field_eq stored_item ''userEmail'' (get_prop other_owner_item ''userEmail'') \<and>
   fst (post_cart [stored_item] 5 other_owner_item) = [stored_item] \<and>
   snd (post_cart [stored_item] 5 other_owner_item) =
     respond 500 False ''Server error while adding item to cart'' None"
proof -
  have u: "unique_ids [stored_item]" by code_simp
  have p: "post_cart [stored_item] 5 other_owner_item =
             (fst (post_cart [stored_item] 5 other_owner_item), snd (post_cart [stored_item] 5 other_owner_item))"
    by simp
  have s: "sanitizeCartPayload other_owner_item False = Inr other_owner_item" by code_simp
  have m: "stored_item \<in> set [stored_item]" by simp
  have i: "field_eq stored_item ''id'' (get_prop other_owner_item ''id'')" by code_simp
  have e: "\<not> field_eq stored_item ''userEmail'' (get_prop other_owner_item ''userEmail'')" by code_simp
  from cart_id_unique_across_owners [OF u p]
  have "\<forall>s d. sanitizeCartPayload other_owner_item False = Inr s \<and> d \<in> set [stored_item] \<and>
                field_eq d ''id'' (get_prop s ''id'') \<and>
                \<not> field_eq d ''userEmail'' (get_prop s ''userEmail'') \<longrightarrow>
                fst (post_cart [stored_item] 5 other_owner_item) = [stored_item] \<and>
                snd (post_cart [stored_item] 5 other_owner_item) =
                  respond 500 False ''Server error while adding item to cart'' None"
    by (rule conjunct2)
  then have "fst (post_cart [stored_item] 5 other_owner_item) = [stored_item] \<and>
             snd (post_cart [stored_item] 5 other_owner_item) =
               respond 500 False ''Server error while adding item to cart'' None"
    using s m i e by blast
  with u s i e show ?thesis by (intro conjI) simp_all
qed

lemma check_supplied_eval:
  "check_supplied x f False =
     (if offending x f
      then Inl (f @ (if is_string (get_prop x f) then '' must be uploaded before saving''
                     else '' must be a string URL''))
      else Inr x)"
  by (auto simp: check_supplied_def and_then_def ensureHostedImage_def set_prop_same offending_def hosted_def)

lemma sanitize_first_offending:
  assumes "find (offending body) image_fields = Some g"
  shows "sanitizeCartPayload body False =
           Inl (g @ (if is_string (get_prop body g) then '' must be uploaded before saving''
                     else '' must be a string URL''))"
proof -
  consider "offending body ''image''" "g = ''image''"
    | "\<not> offending body ''image''" "offending body ''finalImage''" "g = ''finalImage''"
    | "\<not> offending body ''image''" "\<not> offending body ''finalImage''"
      "offending body ''originalImageUrl''" "g = ''originalImageUrl''"
    using assms by (auto simp: image_fields_def split: if_splits)
  then show ?thesis
  proof cases
    case 1
    then show ?thesis
      by (simp add: sanitizeCartPayload_def clonePayload_def check_supplied_eval and_then_def)
  next
    case 2
    then show ?thesis
      by (simp add: sanitizeCartPayload_def clonePayload_def check_supplied_eval and_then_def)
  next
    case 3
    then show ?thesis
      by (simp add: sanitizeCartPayload_def clonePayload_def check_supplied_eval and_then_def)
  qed
qed

lemma inline_is_offending: "startsWith v ''data:'' \<Longrightarrow> truthy v \<and> \<not> hosted v"
  by (cases "(v, ''data:'')" rule: startsWith.cases) (auto simp: hosted_def)

lemma find_offending:
  assumes "f \<in> set image_fields" and "startsWith (get_prop body f) ''data:''"
  shows "\<exists>g. find (offending body) image_fields = Some g"
proof -
  from assms(2) have "offending body f" by (simp add: offending_def inline_is_offending)
  with assms(1) have "find (offending body) image_fields \<noteq> None"
    by (auto simp: find_None_iff)
  then show ?thesis by blast
qed

lemma post_cart_data_cases:
  assumes "post_cart db now body = (db', r)" and "res_data r = Some d"
  shows "\<exists>s. sanitizeCartPayload body False = Inr s \<and>
           ((\<exists>d0. d = apply_updates now s d0 \<and> res_status r = 200) \<or>
            (addToCart db now s = Inr (db', d) \<and> res_status r = 201))"
  using assms
  by (auto simp: post_cart_def updateCartItem_def findOne_def split: sum.splits option.splits if_splits)

lemma post_cart_data_fields:
  assumes "post_cart db now body = (db', r)" and "res_data r = Some d"
  shows "\<exists>s. sanitizeCartPayload body False = Inr s \<and>
           (\<forall>k. k \<noteq> ''createdAt'' \<and> k \<noteq> ''updatedAt'' \<and> get_prop s k \<noteq> None \<longrightarrow>
                map_of (doc_fields d) k = get_prop s k)"
proof -
  from post_cart_data_cases [OF assms] obtain s where s: "sanitizeCartPayload body False = Inr s"
    and c: "(\<exists>d0. d = apply_updates now s d0 \<and> res_status r = 200) \<or>
            (addToCart db now s = Inr (db', d) \<and> res_status r = 201)" by blast
  from c have "\<forall>k. k \<noteq> ''createdAt'' \<and> k \<noteq> ''updatedAt'' \<and> get_prop s k \<noteq> None \<longrightarrow>
                map_of (doc_fields d) k = get_prop s k"
  proof
    assume "\<exists>d0. d = apply_updates now s d0 \<and> res_status r = 200"
    then show ?thesis by (auto simp: fields_apply_updates)
  next
    assume "addToCart db now s = Inr (db', d) \<and> res_status r = 201"
    then have a: "addToCart db now s = Inr (db', d)" by simp
    show ?thesis
    proof (intro allI impI)
      fix k
      assume "k \<noteq> ''createdAt'' \<and> k \<noteq> ''updatedAt'' \<and> get_prop s k \<noteq> None"
      then show "map_of (doc_fields d) k = get_prop s k"
        using created_doc_fields [OF a] by blast
    qed
  qed
  with s show ?thesis by blast
qed

lemma sanitized_image:
  assumes "sanitizeCartPayload body False = Inr s" and "f \<in> set image_fields"
  shows "get_prop s f = get_prop body f \<and> hosted (get_prop body f)"
proof -
  from assms(1) have s: "s = strip_uploads (strip_image_settings body)"
    and h: "hosted (get_prop body ''image'')" "hosted (get_prop body ''finalImage'')"
      "hosted (get_prop body ''originalImageUrl'')"
    using sanitize_full_Inr by blast+
  from assms(2) have "f \<noteq> ''configuration''" by (auto simp: image_fields_def)
  then have "get_prop s f = get_prop body f"
    by (simp add: s strip_uploads_other strip_image_settings_other)
  with h assms(2) show ?thesis by (auto simp: image_fields_def)
qed

lemma hosted_not_None: "hosted v \<Longrightarrow> v \<noteq> None"
  by (cases v) (auto simp: hosted_def)

lemma post_cart_data_image:
  assumes "post_cart db now body = (db', r)" and "res_data r = Some d" and "f \<in> set image_fields"
  shows "hosted (map_of (doc_fields d) f)"
proof -
  from post_cart_data_fields [OF assms(1,2)] obtain s where s: "sanitizeCartPayload body False = Inr s"
    and k: "\<forall>k. k \<noteq> ''createdAt'' \<and> k \<noteq> ''updatedAt'' \<and> get_prop s k \<noteq> None \<longrightarrow>
                map_of (doc_fields d) k = get_prop s k" by blast
  from sanitized_image [OF s assms(3)] have g: "get_prop s f = get_prop body f" and h: "hosted (get_prop body f)"
    by simp_all
  from assms(3) have "f \<noteq> ''createdAt'' \<and> f \<noteq> ''updatedAt''" by (auto simp: image_fields_def)
  moreover from g h have "get_prop s f \<noteq> None" by (simp add: hosted_not_None)
  ultimately have "map_of (doc_fields d) f = get_prop s f" using k by blast
  with g h show ?thesis by simp
qed

text \<open>
  Claim C4, as amended. A payload in which some image field is a string with the inline-data
  prefix is answered with status 400 and nothing is stored. The error names the first
  supplied image field, in the order image, finalImage, originalImageUrl, that the
  sanitiser refuses: \<open>must be uploaded before saving\<close> when that field is a string (it
  then carries the prefix), \<open>must be a string URL\<close> when it is not a string. Whenever the
  handler returns an item, created or updated, its image, finalImage and originalImageUrl
  are non-empty strings without the inline-data prefix.
\<close>

theorem post_cart_rejects_inline_images:
  "(\<forall>f. f \<in> set image_fields \<and> startsWith (get_prop body f) ''data:'' \<longrightarrow>
      (\<exists>g. find (offending body) image_fields = Some g \<and>
           post_cart db now body =
             (db, respond 400 False
                    (g @ (if is_string (get_prop body g) then '' must be uploaded before saving''
                          else '' must be a string URL'')) None))) \<and>
   (\<forall>db' r d. post_cart db now body = (db', r) \<and> res_data r = Some d \<longrightarrow>
      hosted (map_of (doc_fields d) ''image'') \<and>
      hosted (map_of (doc_fields d) ''finalImage'') \<and>
      hosted (map_of (doc_fields d) ''originalImageUrl''))"
proof (intro conjI allI impI)
  fix f
  assume "f \<in> set image_fields \<and> startsWith (get_prop body f) ''data:''"
  then obtain g where g: "find (offending body) image_fields = Some g"
    using find_offending by blast
  then have "post_cart db now body =
             (db, respond 400 False
                    (g @ (if is_string (get_prop body g) then '' must be uploaded before saving''
                          else '' must be a string URL'')) None)"
    by (simp add: sanitize_first_offending post_cart_reject)
  with g show "\<exists>g. find (offending body) image_fields = Some g \<and>
           post_cart db now body =
             (db, respond 400 False
                    (g @ (if is_string (get_prop body g) then '' must be uploaded before saving''
                          else '' must be a string URL'')) None)"
    by blast
next
  fix db' r d
  assume h: "post_cart db now body = (db', r) \<and> res_data r = Some d"
  then have p: "post_cart db now body = (db', r)" and d: "res_data r = Some d" by simp_all
  show "hosted (map_of (doc_fields d) ''image'')"
    using post_cart_data_image [OF p d] by (simp add: image_fields_def)
  show "hosted (map_of (doc_fields d) ''finalImage'')"
    using post_cart_data_image [OF p d] by (simp add: image_fields_def)
  show "hosted (map_of (doc_fields d) ''originalImageUrl'')"
    using post_cart_data_image [OF p d] by (simp add: image_fields_def)
qed

theorem post_cart_rejects_inline_images_witness:
  "''finalImage'' \<in> set image_fields \<and>
   startsWith (get_prop inline_final_item ''finalImage'') ''data:'' \<and>
   post_cart [stored_item] 7 inline_final_item =
     ([stored_item], respond 400 False ''finalImage must be uploaded before saving'' None) \<and>
   res_data (snd (post_cart [stored_item] 7 example_item)) \<noteq> None \<and>
   hosted (map_of (doc_fields (the (res_data (snd (post_cart [stored_item] 7 example_item))))) ''finalImage'')"
proof -
  have m: "''finalImage'' \<in> set image_fields" by (simp add: image_fields_def)
  have i: "startsWith (get_prop inline_final_item ''finalImage'') ''data:''" by code_simp
  have g: "find (offending inline_final_item) image_fields = Some ''finalImage''" by code_simp
  have s: "is_string (get_prop inline_final_item ''finalImage'')" by code_simp
  from post_cart_rejects_inline_images [of inline_final_item "[stored_item]" 7]
  have "\<exists>g. find (offending inline_final_item) image_fields = Some g \<and>
           post_cart [stored_item] 7 inline_final_item =
             ([stored_item], respond 400 False
                    (g @ (if is_string (get_prop inline_final_item g) then '' must be uploaded before saving''
                          else '' must be a string URL'')) None)"
    using m i by blast
  then have c1: "post_cart [stored_item] 7 inline_final_item =
     ([stored_item], respond 400 False ''finalImage must be uploaded before saving'' None)"
    using g s by auto
  have dn: "res_data (snd (post_cart [stored_item] 7 example_item)) \<noteq> None" by code_simp
  then obtain d where d: "res_data (snd (post_cart [stored_item] 7 example_item)) = Some d" by blast
  have p: "post_cart [stored_item] 7 example_item =
             (fst (post_cart [stored_item] 7 example_item), snd (post_cart [stored_item] 7 example_item))"
    by simp
  from post_cart_rejects_inline_images [of example_item "[stored_item]" 7]
  have "hosted (map_of (doc_fields d) ''finalImage'')"
    using p d by blast
  then have c2: "hosted (map_of (doc_fields (the (res_data (snd (post_cart [stored_item] 7 example_item))))) ''finalImage'')"
    using d by simp
  from m i c1 dn c2 show ?thesis by (intro conjI)
qed

text \<open>
  The claim as worded fails where an earlier image field is supplied but is not a string:
  here \<open>finalImage\<close> is inline data, and the request is refused, but with the error of
  \<open>image\<close>, which is none of the three \<open>must be uploaded before saving\<close> errors.
\<close>

theorem inline_image_error_counterexample:
  "startsWith (get_prop inline_after_number ''finalImage'') ''data:'' \<and>
   post_cart [] 1 inline_after_number = ([], respond 400 False ''image must be a string URL'' None) \<and>
   res_message (snd (post_cart [] 1 inline_after_number)) \<notin>
     {''image must be uploaded before saving'', ''finalImage must be uploaded before saving'',
      ''originalImageUrl must be uploaded before saving''}"
  by code_simp














section \<open>Verification: removing an item, summing a cart\<close>









lemma sum_left_sum_list: "sum_left xs = sum_list (xs :: 'a::monoid_add list)"
proof -
  have "foldl (+) a xs = a + sum_list xs" for a :: 'a
    by (induction xs arbitrary: a) (simp_all add: add.assoc)
  from this [of 0] show ?thesis by (simp add: sum_left_def)
qed



section \<open>Verification: orders\<close>

lemma map_throwing_Inr:
  "map_throwing f xs = Inr ys \<longleftrightarrow> list_all2 (\<lambda>x y. f x = Inr y) xs ys"
proof (induction xs arbitrary: ys)
  case Nil
  then show ?case by auto
next
  case (Cons x xs)
  show ?case
  proof (cases ys)
    case Nil
    then show ?thesis by (auto simp: and_then_def split: sum.splits)
  next
    case (Cons y ys')
    with Cons.IH [of ys'] show ?thesis by (auto simp: and_then_def split: sum.splits)
  qed
qed

lemma member_Some: "member (Some item) k = Inr v \<Longrightarrow> v = get_prop item k"
  by (cases item) (auto simp: member_def)

lemma member_ids:
  "map_throwing (\<lambda>item. member (Some item) k) its = Inr ids \<Longrightarrow> ids = map (\<lambda>item. get_prop item k) its"
proof (induction its arbitrary: ids)
  case Nil
  then show ?case by simp
next
  case (Cons a its)
  then show ?case
    by (auto simp: and_then_def split: sum.splits dest: member_Some)
qed

lemma snapshot_item_Inr:
  assumes "snapshot_item cartItems item = Inr entry"
  shows "\<exists>ci\<in>set cartItems. get_prop item ''cartItemId'' = Some (JStr (item_id ci)) \<and>
           cartItemId entry = Some (JStr (item_id ci)) \<and>
           name entry = name ci \<and> quantity entry = quantity ci \<and> price entry = price ci \<and>
           currency entry = currency ci \<and> finalImage entry = finalImage ci \<and>
           originalImageUrl entry = originalImageUrl ci \<and> mousepadType entry = mousepadType ci \<and>
           mousepadSize entry = mousepadSize ci \<and> thickness entry = thickness ci"
proof -
  from assms obtain requested ci where m: "member (Some item) ''cartItemId'' = Inr requested"
    and f: "find (\<lambda>ci. Some (JStr (item_id ci)) = requested) cartItems = Some ci"
    and e: "entry = \<lparr> name = name ci, quantity = quantity ci, price = price ci, currency = currency ci,
                 finalImage = finalImage ci, originalImageUrl = originalImageUrl ci,
                 mousepadType = mousepadType ci, mousepadSize = mousepadSize ci,
                 thickness = thickness ci, cartItemId = requested \<rparr>"
    by (auto simp: snapshot_item_def and_then_def split: sum.splits option.splits)
  from find_Some_set [OF f] have c: "ci \<in> set cartItems" and r: "Some (JStr (item_id ci)) = requested"
    by simp_all
  from m have g: "requested = get_prop item ''cartItemId''" by (rule member_Some)
  have "get_prop item ''cartItemId'' = Some (JStr (item_id ci)) \<and>
           cartItemId entry = Some (JStr (item_id ci)) \<and>
           name entry = name ci \<and> quantity entry = quantity ci \<and> price entry = price ci \<and>
           currency entry = currency ci \<and> finalImage entry = finalImage ci \<and>
           originalImageUrl entry = originalImageUrl ci \<and> mousepadType entry = mousepadType ci \<and>
           mousepadSize entry = mousepadSize ci \<and> thickness entry = thickness ci"
    using r g by (simp add: e)
  with c show ?thesis by (rule bexI [rotated])
qed

lemma snapshot_item_ids_only:
  assumes "get_prop item' ''cartItemId'' = get_prop item ''cartItemId''" and "item' \<noteq> JNull"
    and "snapshot_item cartItems item = Inr entry"
  shows "snapshot_item cartItems item' = Inr entry"
proof -
  from assms(3) have "item \<noteq> JNull" by (auto simp: snapshot_item_def and_then_def member_def)
  then have "member (Some item) ''cartItemId'' = Inr (get_prop item ''cartItemId'')"
    by (cases item) (simp_all add: member_def)
  moreover from assms(2) have "member (Some item') ''cartItemId'' = Inr (get_prop item' ''cartItemId'')"
    by (cases item') (simp_all add: member_def)
  ultimately show ?thesis using assms(1,3) by (simp add: snapshot_item_def and_then_def)
qed

lemma and_then_Inr: "and_then r f = Inr y \<longleftrightarrow> (\<exists>x. r = Inr x \<and> f x = Inr y)"
  by (cases r) (simp_all add: and_then_def)

lemma post_order_cases:
  assumes "post_order validate cartDb orders new_id uid body = (orders', r)"
  shows "(orders' = orders \<and> res_status r \<noteq> 201) \<or>
         (\<exists>its order. validate body = [] \<and> get_prop body ''items'' = Some (JArr its) \<and>
            map_throwing (\<lambda>item. member (Some item) ''cartItemId'') its
              = Inr (map (\<lambda>item. get_prop item ''cartItemId'') its) \<and>
            length (find_owned cartDb (map (\<lambda>item. get_prop item ''cartItemId'') its) uid) = length its \<and>
            map_throwing (snapshot_item (find_owned cartDb (map (\<lambda>item. get_prop item ''cartItemId'') its) uid)) its
              = Inr (items order) \<and>
            orders' = orders @ [order] \<and>
            r = respond 201 True ''Order created successfully'' (Some order))"
proof (cases "validate body = []")
  case False
  with assms show ?thesis by (auto simp: post_order_def)
next
  case v: True
  show ?thesis
  proof (cases "\<exists>its. get_prop body ''items'' = Some (JArr its)")
    case False
    with assms v show ?thesis
      by (auto simp: post_order_def split: option.splits json.splits)
  next
    case True
    then obtain its where its: "get_prop body ''items'' = Some (JArr its)" by blast
    show ?thesis
    proof (cases "map_throwing (\<lambda>item. member (Some item) ''cartItemId'') its")
      case (Inl thrown)
      with assms v its show ?thesis by (auto simp: post_order_def)
    next
      case (Inr ids)
      then have ids: "ids = map (\<lambda>item. get_prop item ''cartItemId'') its" by (rule member_ids)
      let ?cartItems = "find_owned cartDb ids uid"
      show ?thesis
      proof (cases "length ?cartItems = length ids")
        case False
        with assms v its Inr show ?thesis by (auto simp: post_order_def Let_def)
      next
        case len: True
        let ?built = "and_then (map_throwing (snapshot_item ?cartItems) its) (\<lambda>order_items.
                        and_then (customer_block (get_prop body ''customerInfo'')) (\<lambda>customer.
                        and_then (amount (or_else (get_prop body ''subtotal'') (JNum 0))) (\<lambda>sub.
                        and_then (amount (or_else (get_prop body ''shipping'') (JNum 0))) (\<lambda>ship.
                        and_then (amount (or_else (get_prop body ''tax'') (JNum 0))) (\<lambda>tx.
                        and_then (amount (or_else (get_prop body ''total'') (JNum 0))) (\<lambda>tot.
                        and_then (currency_code (or_else (get_prop body ''currency'') (JStr ''USD''))) (\<lambda>cur.
                          Inr \<lparr> order_id = new_id, order_userId = uid, items = order_items,
                                subtotal = sub, shipping = ship, tax = tx, order_total = tot,
                                order_currency = cur, customerInfo = customer,
                                status = ''pending'', paymentStatus = ''pending'',
                                paymentTransactionId = None \<rparr>)))))))"
        have p: "post_order validate cartDb orders new_id uid body =
                   (case ?built of
                      Inl thrown \<Rightarrow> (orders, respond 500 False thrown None)
                    | Inr order \<Rightarrow>
                        (orders @ [order], respond 201 True ''Order created successfully'' (Some order)))"
          using v its Inr len by (simp add: post_order_def Let_def)
        show ?thesis
        proof (cases ?built)
          case (Inl thrown)
          with p assms show ?thesis by auto
        next
          case b: (Inr order)
          then have "map_throwing (snapshot_item ?cartItems) its = Inr (items order)"
            by (auto simp: and_then_Inr)
          moreover from p b assms have "orders' = orders @ [order]"
            "r = respond 201 True ''Order created successfully'' (Some order)" by simp_all
          ultimately show ?thesis using v its Inr len ids by auto
        qed
      qed
    qed
  qed
qed




lemma find_owned_set: "ci \<in> set (find_owned cartDb ids uid) \<Longrightarrow> ci \<in> set cartDb \<and> userId ci = uid"
  by (simp add: find_owned_def)

lemma snapshot_item_copied:
  assumes "snapshot_item (find_owned cartDb ids uid) item = Inr entry"
  shows "\<exists>ci\<in>set cartDb. userId ci = uid \<and> copied_from ci item entry"
proof -
  from snapshot_item_Inr [OF assms] obtain ci where c: "ci \<in> set (find_owned cartDb ids uid)"
    and f: "copied_from ci item entry"
    unfolding copied_from_def by blast
  from find_owned_set [OF c] f show ?thesis by blast
qed

lemma snapshots_copied:
  assumes "map_throwing (snapshot_item (find_owned cartDb ids uid)) its = Inr entries"
  shows "list_all2 (\<lambda>item entry. \<exists>ci\<in>set cartDb. userId ci = uid \<and> copied_from ci item entry) its entries"
proof -
  from assms have "list_all2 (\<lambda>item entry. snapshot_item (find_owned cartDb ids uid) item = Inr entry) its entries"
    by (simp add: map_throwing_Inr)
  then show ?thesis
    by (rule list_all2_mono) (rule snapshot_item_copied)
qed

lemma snapshots_ids_only:
  assumes "map_throwing (snapshot_item cartItems) its = Inr entries"
    and "map (\<lambda>item. get_prop item ''cartItemId'') its' = map (\<lambda>item. get_prop item ''cartItemId'') its"
    and "JNull \<notin> set its'"
  shows "map_throwing (snapshot_item cartItems) its' = Inr entries"
  using assms
proof (induction its arbitrary: its' entries)
  case Nil
  then show ?case by simp
next
  case (Cons a its)
  from Cons.prems(2) obtain a' rest where i: "its' = a' # rest"
    and a: "get_prop a' ''cartItemId'' = get_prop a ''cartItemId''"
    and r: "map (\<lambda>item. get_prop item ''cartItemId'') rest = map (\<lambda>item. get_prop item ''cartItemId'') its"
    by (cases its') auto
  from Cons.prems(1) obtain e es where e: "snapshot_item cartItems a = Inr e"
    and es: "map_throwing (snapshot_item cartItems) its = Inr es" and en: "entries = e # es"
    by (auto simp: and_then_Inr)
  from Cons.prems(3) i have n: "a' \<noteq> JNull" "JNull \<notin> set rest" by auto
  have "snapshot_item cartItems a' = Inr e" using a n(1) e by (rule snapshot_item_ids_only)
  moreover have "map_throwing (snapshot_item cartItems) rest = Inr es"
    using es r n(2) by (rule Cons.IH)
  ultimately show ?case by (simp add: i en and_then_def)
qed



text \<open>
  Claim C2. When an order is created, each entry of its \<open>items\<close> corresponds to the request
  item at the same position: its \<open>cartItemId\<close> is the requested id, which is the id of a
  stored cart item of the requester, and name, quantity, price, currency, finalImage,
  originalImageUrl, mousepadType, mousepadSize and thickness are that cart item's. Nothing
  else of a request item is read: request items with the same ids, whatever other fields
  they carry, give the same entries.
\<close>

theorem post_order_snapshots_cart:
  assumes "post_order validate cartDb orders new_id uid body = (orders', r)" and "res_status r = 201"
  shows "\<exists>its order. get_prop body ''items'' = Some (JArr its) \<and> res_data r = Some order \<and>
           orders' = orders @ [order] \<and>
           list_all2 (\<lambda>item entry. \<exists>ci\<in>set cartDb. userId ci = uid \<and> copied_from ci item entry)
             its (items order) \<and>
           (\<forall>its'. map (\<lambda>item. get_prop item ''cartItemId'') its' = map (\<lambda>item. get_prop item ''cartItemId'') its \<and>
                   JNull \<notin> set its' \<longrightarrow>
                   map_throwing
                     (snapshot_item (find_owned cartDb (map (\<lambda>item. get_prop item ''cartItemId'') its') uid)) its'
                   = Inr (items order))"
proof -
  from post_order_cases [OF assms(1)] assms(2) obtain its order where
    its: "get_prop body ''items'' = Some (JArr its)"
    and sn: "map_throwing (snapshot_item (find_owned cartDb (map (\<lambda>item. get_prop item ''cartItemId'') its) uid)) its
              = Inr (items order)"
    and o: "orders' = orders @ [order]"
    and r: "r = respond 201 True ''Order created successfully'' (Some order)"
    by auto
  have d: "res_data r = Some order" by (simp add: r)
  have l: "list_all2 (\<lambda>item entry. \<exists>ci\<in>set cartDb. userId ci = uid \<and> copied_from ci item entry)
             its (items order)"
    using sn by (rule snapshots_copied)
  have t: "\<forall>its'. map (\<lambda>item. get_prop item ''cartItemId'') its' = map (\<lambda>item. get_prop item ''cartItemId'') its \<and>
                   JNull \<notin> set its' \<longrightarrow>
                   map_throwing
                     (snapshot_item (find_owned cartDb (map (\<lambda>item. get_prop item ''cartItemId'') its') uid)) its'
                   = Inr (items order)"
  proof (intro allI impI)
    fix its'
    assume h: "map (\<lambda>item. get_prop item ''cartItemId'') its' = map (\<lambda>item. get_prop item ''cartItemId'') its \<and>
                   JNull \<notin> set its'"
    then have e: "map (\<lambda>item. get_prop item ''cartItemId'') its' = map (\<lambda>item. get_prop item ''cartItemId'') its"
      and n: "JNull \<notin> set its'" by simp_all
    show "map_throwing
            (snapshot_item (find_owned cartDb (map (\<lambda>item. get_prop item ''cartItemId'') its') uid)) its'
          = Inr (items order)"
      unfolding e using sn e n by (rule snapshots_ids_only)
  qed
  from its d o l t show ?thesis by blast
qed

theorem post_order_snapshots_cart_witness:
  "res_status (snd (post_order (\<lambda>b. []) [pad_a, pad_b] [] ''o1'' ''u1'' tampered_order_request)) = 201 \<and>
   get_prop tampered_order_request ''items'' =
     Some (JArr [JObj [(''cartItemId'', JStr ''65a000000000000000000001''),
                       (''name'', JStr ''Free Mousepad''), (''price'', JNum 0), (''quantity'', JNum 9)]]) \<and>
   (\<exists>order entry.
      res_data (snd (post_order (\<lambda>b. []) [pad_a, pad_b] [] ''o1'' ''u1'' tampered_order_request)) = Some order \<and>
      items order = [entry] \<and> name entry = ''Custom Mousepad'' \<and> price entry = 25 \<and> quantity entry = 2)"
proof -
  let ?g = "post_order (\<lambda>b. []) [pad_a, pad_b] [] ''o1'' ''u1'' tampered_order_request"
  let ?item = "JObj [(''cartItemId'', JStr ''65a000000000000000000001''),
                       (''name'', JStr ''Free Mousepad''), (''price'', JNum 0), (''quantity'', JNum 9)] :: int json"
  have pg: "?g = (fst ?g, snd ?g)" by simp
  have st: "res_status (snd ?g) = 201" by code_simp
  have i: "get_prop tampered_order_request ''items'' = Some (JArr [?item])" by code_simp
  from post_order_snapshots_cart [OF pg st] obtain its order where
    its: "get_prop tampered_order_request ''items'' = Some (JArr its)"
    and d: "res_data (snd ?g) = Some order"
    and l: "list_all2 (\<lambda>item entry. \<exists>ci\<in>set [pad_a, pad_b]. userId ci = ''u1'' \<and> copied_from ci item entry)
             its (items order)"
    by blast
  from its i have "its = [?item]" by simp
  with l obtain entry where e: "items order = [entry]"
    and c: "\<exists>ci\<in>set [pad_a, pad_b]. userId ci = ''u1'' \<and> copied_from ci ?item entry"
    by (auto simp: list_all2_Cons1)
  have ub: "userId pad_b \<noteq> ''u1''" by (simp add: pad_b_def)
  from c ub have cf: "copied_from pad_a ?item entry" by auto
  then have "name entry = ''Custom Mousepad'' \<and> price entry = 25 \<and> quantity entry = 2"
    by (simp add: copied_from_def pad_a_def)
  with d e have "\<exists>order entry. res_data (snd ?g) = Some order \<and>
      items order = [entry] \<and> name entry = ''Custom Mousepad'' \<and> price entry = 25 \<and> quantity entry = 2"
    by blast
  with st i show ?thesis by (intro conjI)
qed

lemma set_payment_status_id: "order_id (set_payment_status s t order) = order_id order"
  by (auto simp: set_payment_status_def Let_def split: option.splits json.splits)

lemma set_payment_status_payment: "paymentStatus (set_payment_status s t order) = s"
  by (auto simp: set_payment_status_def Let_def split: option.splits json.splits)

lemma set_payment_status_status:
  "status (set_payment_status s t order) =
     (if s = ''completed'' then ''processing'' else if s = ''failed'' then ''paymentFailed'' else status order)"
  by (auto simp: set_payment_status_def Let_def split: option.splits json.splits)

lemma payment_status_errors_Nil:
  "payment_status_errors body = [] \<Longrightarrow> get_prop body ''status'' = Some (JStr s) \<Longrightarrow> s \<in> set payment_statuses"
  by (auto simp: payment_status_errors_def split: if_splits)

lemma patch_payment_status_found:
  assumes "getOrderById orders oid = Some order" and "order_userId order = uid"
    and "payment_status_errors body = []" and "get_prop body ''status'' = Some (JStr s)"
  shows "patch_payment_status notify orders oid uid body =
           (update_first (\<lambda>x. order_id x = order_id order)
              (\<lambda>x. set_payment_status s (get_prop body ''paymentTransactionId'') order) orders,
            respond 200 True ''Order payment status updated successfully''
              (Some (set_payment_status s (get_prop body ''paymentTransactionId'') order)),
            (case notify (set_payment_status s (get_prop body ''paymentTransactionId'') order) of
               Inl err \<Rightarrow> [''Failed to send order confirmation email: '' @ err]
             | Inr _ \<Rightarrow> []))"
  using assms by (simp add: patch_payment_status_def Let_def)

lemma patch_payment_status_auth_found:
  assumes "getOrderById orders oid = Some order" and "order_userId order = uid"
    and "payment_status_errors body = []" and "get_prop body ''status'' = Some (JStr s)"
  shows "patch_payment_status_auth orders oid uid role body =
           (update_first (\<lambda>x. order_id x = order_id order)
              (\<lambda>x. set_payment_status s (get_prop body ''paymentTransactionId'') order) orders,
            respond 200 True ''Order payment status updated successfully''
              (Some (set_payment_status s (get_prop body ''paymentTransactionId'') order)))"
  using assms by (simp add: patch_payment_status_auth_def Let_def)

lemma getOrderById_updated:
  assumes "getOrderById orders oid = Some order" and "order_id updated = order_id order"
  shows "getOrderById (update_first (\<lambda>x. order_id x = order_id order) (\<lambda>x. updated) orders) oid = Some updated"
proof -
  from assms(1) have f: "find (\<lambda>x. order_id x = oid) orders = Some order" by (simp add: getOrderById_def)
  from find_Some_set [OF f] have o: "order_id order = oid" by simp
  from f have "find (\<lambda>x. order_id x = oid) (update_first (\<lambda>x. order_id x = oid) (\<lambda>x. updated) orders)
                 = Some ((\<lambda>x. updated) order)"
    by (rule find_update_first) (simp add: assms(2) o)
  then show ?thesis by (simp add: getOrderById_def o)
qed

text \<open>
  Claim C5. For an order that exists and belongs to the requester, and a request that passes
  the validators with payment status \<open>s\<close>, both deployments of the payment-status route answer
  200 with the updated order, which is what the order's id then resolves to. Its
  \<open>paymentStatus\<close> is \<open>s\<close>; its \<open>status\<close> is processing when \<open>s\<close> is completed, paymentFailed
  when \<open>s\<close> is failed, and the order's previous status when \<open>s\<close> is pending, processing or
  refunded.
\<close>

theorem payment_status_transitions:
  assumes "getOrderById orders oid = Some order" and "order_userId order = uid"
    and "payment_status_errors body = []" and "get_prop body ''status'' = Some (JStr s)"
  shows "\<exists>updated.
           fst (snd (patch_payment_status notify orders oid uid body)) =
             respond 200 True ''Order payment status updated successfully'' (Some updated) \<and>
           getOrderById (fst (patch_payment_status notify orders oid uid body)) oid = Some updated \<and>
           patch_payment_status_auth orders oid uid role body =
             (fst (patch_payment_status notify orders oid uid body),
              fst (snd (patch_payment_status notify orders oid uid body))) \<and>
           s \<in> set payment_statuses \<and>
           paymentStatus updated = s \<and>
           (s = ''completed'' \<longrightarrow> status updated = ''processing'') \<and>
           (s = ''failed'' \<longrightarrow> status updated = ''paymentFailed'') \<and>
           (s \<in> {''pending'', ''processing'', ''refunded''} \<longrightarrow> status updated = status order)"
proof -
  let ?u = "set_payment_status s (get_prop body ''paymentTransactionId'') order"
  note p = patch_payment_status_found [OF assms, of notify]
  note q = patch_payment_status_auth_found [OF assms, of role]
  have 1: "fst (snd (patch_payment_status notify orders oid uid body)) =
             respond 200 True ''Order payment status updated successfully'' (Some ?u)"
    by (simp add: p)
  have 2: "getOrderById (fst (patch_payment_status notify orders oid uid body)) oid = Some ?u"
    using getOrderById_updated [OF assms(1), of ?u] by (simp add: p set_payment_status_id)
  have 3: "patch_payment_status_auth orders oid uid role body =
             (fst (patch_payment_status notify orders oid uid body),
              fst (snd (patch_payment_status notify orders oid uid body)))"
    by (simp add: p q)
  have 4: "s \<in> set payment_statuses" using assms(3,4) by (rule payment_status_errors_Nil)
  have 5: "paymentStatus ?u = s" by (rule set_payment_status_payment)
  have 6: "s = ''completed'' \<longrightarrow> status ?u = ''processing''" by (simp add: set_payment_status_status)
  have 7: "s = ''failed'' \<longrightarrow> status ?u = ''paymentFailed''" by (simp add: set_payment_status_status)
  have 8: "s \<in> {''pending'', ''processing'', ''refunded''} \<longrightarrow> status ?u = status order"
    by (auto simp: set_payment_status_status)
  show ?thesis
    by (rule exI [of _ ?u]) (intro conjI 1 2 3 4 5 6 7 8)
qed

theorem payment_status_transitions_witness:
  "getOrderById [pending_order] ''66b000000000000000000001'' = Some pending_order \<and>
   order_userId pending_order = ''u1'' \<and>
   payment_status_errors completed_request = [] \<and> payment_status_errors refunded_request = [] \<and>
   (\<exists>updated. getOrderById (fst (patch_payment_status (\<lambda>x. Inl ''smtp down'') [pending_order]
                   ''66b000000000000000000001'' ''u1'' completed_request)) ''66b000000000000000000001'' = Some updated \<and>
      paymentStatus updated = ''completed'' \<and> status updated = ''processing'') \<and>
   (\<exists>updated. getOrderById (fst (patch_payment_status (\<lambda>x. Inl ''smtp down'') [pending_order]
                   ''66b000000000000000000001'' ''u1'' refunded_request)) ''66b000000000000000000001'' = Some updated \<and>
      paymentStatus updated = ''refunded'' \<and> status updated = ''pending'')"
proof -
  have g: "getOrderById [pending_order] ''66b000000000000000000001'' = Some pending_order" by code_simp
  have u: "order_userId pending_order = ''u1''" by (simp add: pending_order_def)
  have e1: "payment_status_errors completed_request = []" by code_simp
  have e2: "payment_status_errors refunded_request = []" by code_simp
  have s1: "get_prop completed_request ''status'' = Some (JStr ''completed'')" by code_simp
  have s2: "get_prop refunded_request ''status'' = Some (JStr ''refunded'')" by code_simp
  have st: "status pending_order = ''pending''" by (simp add: pending_order_def)
  from payment_status_transitions [OF g u e1 s1, where notify = "\<lambda>x. Inl ''smtp down''" and role = "''user''"]
  obtain up1 where a1: "getOrderById (fst (patch_payment_status (\<lambda>x. Inl ''smtp down'') [pending_order]
                   ''66b000000000000000000001'' ''u1'' completed_request)) ''66b000000000000000000001'' = Some up1"
    and a2: "paymentStatus up1 = ''completed''"
    and a3: "''completed'' = ''completed'' \<longrightarrow> status up1 = ''processing''"
    by (elim exE conjE) (rule that, assumption+)
  from a3 have a4: "status up1 = ''processing''" by simp
  from a1 a2 a4
  have a: "\<exists>updated. getOrderById (fst (patch_payment_status (\<lambda>x. Inl ''smtp down'') [pending_order]
                   ''66b000000000000000000001'' ''u1'' completed_request)) ''66b000000000000000000001'' = Some updated \<and>
      paymentStatus updated = ''completed'' \<and> status updated = ''processing''"
    by (intro exI conjI)
  from payment_status_transitions [OF g u e2 s2, where notify = "\<lambda>x. Inl ''smtp down''" and role = "''user''"]
  obtain up2 where b1: "getOrderById (fst (patch_payment_status (\<lambda>x. Inl ''smtp down'') [pending_order]
                   ''66b000000000000000000001'' ''u1'' refunded_request)) ''66b000000000000000000001'' = Some up2"
    and b2: "paymentStatus up2 = ''refunded''"
    and b3: "''refunded'' \<in> {''pending'', ''processing'', ''refunded''} \<longrightarrow> status up2 = status pending_order"
    by (elim exE conjE) (rule that, assumption+)
  from b3 have b4: "status up2 = ''pending''" by (simp add: st)
  from b1 b2 b4
  have b: "\<exists>updated. getOrderById (fst (patch_payment_status (\<lambda>x. Inl ''smtp down'') [pending_order]
                   ''66b000000000000000000001'' ''u1'' refunded_request)) ''66b000000000000000000001'' = Some updated \<and>
      paymentStatus updated = ''refunded'' \<and> status updated = ''pending''"
    by (intro exI conjI)
  from g u e1 e2 a b show ?thesis by (intro conjI)
qed

lemma send_disabled:
  "\<not> enabled env \<Longrightarrow> sendOrderConfirmationEmail env order =
     Inr \<lparr> success = False, messageId = None, message = Some ''Email service is disabled'', error = None \<rparr>"
  by (simp add: sendOrderConfirmationEmail_def)

lemma send_no_key:
  "enabled env \<Longrightarrow> apiKey env = [] \<Longrightarrow> sendOrderConfirmationEmail env order =
     Inr \<lparr> success = False, messageId = None, message = Some ''Email API key not configured'', error = None \<rparr>"
  by (simp add: sendOrderConfirmationEmail_def)

lemma send_no_template:
  "enabled env \<Longrightarrow> apiKey env \<noteq> [] \<Longrightarrow> readTemplate env = Inl e \<or> readTemplate env = Inr [] \<Longrightarrow>
   sendOrderConfirmationEmail env order =
     Inr \<lparr> success = False, messageId = None, message = None, error = Some ''Failed to load email template'' \<rparr>"
  by (auto simp: sendOrderConfirmationEmail_def loadEmailTemplate_def try_catch_def)

lemma send_compose_throws:
  "enabled env \<Longrightarrow> apiKey env \<noteq> [] \<Longrightarrow> readTemplate env = Inr t \<Longrightarrow> t \<noteq> [] \<Longrightarrow>
   compose env t order = Inl e \<Longrightarrow>
   sendOrderConfirmationEmail env order =
     Inr \<lparr> success = False, messageId = None, message = None,
           error = Some (if e \<noteq> [] then e else ''Failed to send email'') \<rparr>"
  by (simp add: sendOrderConfirmationEmail_def loadEmailTemplate_def try_catch_def and_then_def)

lemma send_service_throws:
  "enabled env \<Longrightarrow> apiKey env \<noteq> [] \<Longrightarrow> readTemplate env = Inr t \<Longrightarrow> t \<noteq> [] \<Longrightarrow>
   compose env t order = Inr mail \<Longrightarrow> sendTransacEmail env mail = Inl e \<Longrightarrow>
   sendOrderConfirmationEmail env order =
     Inr \<lparr> success = False, messageId = None, message = None,
           error = Some (if e \<noteq> [] then e else ''Failed to send email'') \<rparr>"
  by (simp add: sendOrderConfirmationEmail_def loadEmailTemplate_def try_catch_def and_then_def)

lemma send_succeeds:
  "enabled env \<Longrightarrow> apiKey env \<noteq> [] \<Longrightarrow> readTemplate env = Inr t \<Longrightarrow> t \<noteq> [] \<Longrightarrow>
   compose env t order = Inr mail \<Longrightarrow> sendTransacEmail env mail = Inr mid \<Longrightarrow>
   sendOrderConfirmationEmail env order =
     Inr \<lparr> success = True, messageId = Some mid, message = Some ''Email sent successfully'', error = None \<rparr>"
  by (simp add: sendOrderConfirmationEmail_def loadEmailTemplate_def try_catch_def and_then_def)

lemma send_returns:
  "\<exists>res. sendOrderConfirmationEmail env order = Inr res \<and>
     (success res \<longleftrightarrow>
        (enabled env \<and> apiKey env \<noteq> [] \<and>
         (\<exists>t mail mid. readTemplate env = Inr t \<and> t \<noteq> [] \<and> compose env t order = Inr mail \<and>
                       sendTransacEmail env mail = Inr mid)))"
proof (cases "enabled env")
  case False
  then show ?thesis by (simp add: send_disabled)
next
  case en: True
  show ?thesis
  proof (cases "apiKey env = []")
    case True
    with en show ?thesis by (simp add: send_no_key)
  next
    case key: False
    show ?thesis
    proof (cases "readTemplate env")
      case (Inl e)
      with en key show ?thesis by (simp add: send_no_template)
    next
      case (Inr t)
      show ?thesis
      proof (cases "t = []")
        case True
        with en key Inr show ?thesis by (simp add: send_no_template)
      next
        case t: False
        show ?thesis
        proof (cases "compose env t order")
          case (Inl e)
          with en key Inr t show ?thesis by (simp add: send_compose_throws)
        next
          case c: (Inr mail)
          show ?thesis
          proof (cases "sendTransacEmail env mail")
            case (Inl e)
            with en key Inr t c show ?thesis by (simp add: send_service_throws)
          next
            case s: (Inr mid)
            with en key Inr t c show ?thesis by (simp add: send_succeeds)
          qed
        qed
      qed
    qed
  qed
qed

lemma patch_payment_status_notify:
  "fst (patch_payment_status notify orders oid uid body) = fst (patch_payment_status notify' orders oid uid body) \<and>
   fst (snd (patch_payment_status notify orders oid uid body)) =
     fst (snd (patch_payment_status notify' orders oid uid body))"
  by (simp add: patch_payment_status_def Let_def split: option.splits json.splits)

text \<open>
  Claim C8. \<open>sendOrderConfirmationEmail\<close> always returns a result and never throws, and the
  result reports success only when the service is enabled, the API key is set, the template
  was read and is not empty, the mail was composed and the mail service accepted it. A
  disabled service, a missing key, a template that cannot be loaded and a failure of the
  mail service each give a result with \<open>success\<close> false. In the payment-status route the
  collection and the response do not depend on the notifier; for an order that exists and
  belongs to the requester the answer is 200 whatever the notifier does, and a rejection is
  only logged.
\<close>

theorem notifier_never_throws:
  "(\<exists>res. sendOrderConfirmationEmail env order = Inr res \<and>
      (success res \<longleftrightarrow>
         (enabled env \<and> apiKey env \<noteq> [] \<and>
          (\<exists>t mail mid. readTemplate env = Inr t \<and> t \<noteq> [] \<and> compose env t order = Inr mail \<and>
                        sendTransacEmail env mail = Inr mid)))) \<and>
   (\<not> enabled env \<longrightarrow>
      sendOrderConfirmationEmail env order =
        Inr \<lparr> success = False, messageId = None, message = Some ''Email service is disabled'', error = None \<rparr>) \<and>
   (enabled env \<and> apiKey env = [] \<longrightarrow>
      sendOrderConfirmationEmail env order =
        Inr \<lparr> success = False, messageId = None, message = Some ''Email API key not configured'',
              error = None \<rparr>) \<and>
   (\<forall>e. enabled env \<and> apiKey env \<noteq> [] \<and> readTemplate env = Inl e \<longrightarrow>
      sendOrderConfirmationEmail env order =
        Inr \<lparr> success = False, messageId = None, message = None,
              error = Some ''Failed to load email template'' \<rparr>) \<and>
   (\<forall>t mail e. enabled env \<and> apiKey env \<noteq> [] \<and> readTemplate env = Inr t \<and> t \<noteq> [] \<and>
      compose env t order = Inr mail \<and> sendTransacEmail env mail = Inl e \<longrightarrow>
      sendOrderConfirmationEmail env order =
        Inr \<lparr> success = False, messageId = None, message = None,
              error = Some (if e \<noteq> [] then e else ''Failed to send email'') \<rparr>) \<and>
   fst (patch_payment_status notify orders oid uid body) =
     fst (patch_payment_status notify' orders oid uid body) \<and>
   fst (snd (patch_payment_status notify orders oid uid body)) =
     fst (snd (patch_payment_status notify' orders oid uid body)) \<and>
   (\<forall>stored s. getOrderById orders oid = Some stored \<and> order_userId stored = uid \<and>
      payment_status_errors body = [] \<and> get_prop body ''status'' = Some (JStr s) \<longrightarrow>
      res_status (fst (snd (patch_payment_status notify orders oid uid body))) = 200 \<and>
      res_success (fst (snd (patch_payment_status notify orders oid uid body))) \<and>
      snd (snd (patch_payment_status notify orders oid uid body)) =
        (case notify (set_payment_status s (get_prop body ''paymentTransactionId'') stored) of
           Inl err \<Rightarrow> [''Failed to send order confirmation email: '' @ err]
         | Inr res \<Rightarrow> []))"
proof -
  note 1 = send_returns [of env order]
  have 2: "\<not> enabled env \<longrightarrow>
      sendOrderConfirmationEmail env order =
        Inr \<lparr> success = False, messageId = None, message = Some ''Email service is disabled'', error = None \<rparr>"
    by (simp add: send_disabled)
  have 3: "enabled env \<and> apiKey env = [] \<longrightarrow>
      sendOrderConfirmationEmail env order =
        Inr \<lparr> success = False, messageId = None, message = Some ''Email API key not configured'',
              error = None \<rparr>"
    by (simp add: send_no_key)
  have 4: "\<forall>e. enabled env \<and> apiKey env \<noteq> [] \<and> readTemplate env = Inl e \<longrightarrow>
      sendOrderConfirmationEmail env order =
        Inr \<lparr> success = False, messageId = None, message = None,
              error = Some ''Failed to load email template'' \<rparr>"
    by (simp add: send_no_template)
  have 5: "\<forall>t mail e. enabled env \<and> apiKey env \<noteq> [] \<and> readTemplate env = Inr t \<and> t \<noteq> [] \<and>
      compose env t order = Inr mail \<and> sendTransacEmail env mail = Inl e \<longrightarrow>
      sendOrderConfirmationEmail env order =
        Inr \<lparr> success = False, messageId = None, message = None,
              error = Some (if e \<noteq> [] then e else ''Failed to send email'') \<rparr>"
  proof (intro allI impI)
    fix t mail e
    assume h: "enabled env \<and> apiKey env \<noteq> [] \<and> readTemplate env = Inr t \<and> t \<noteq> [] \<and>
      compose env t order = Inr mail \<and> sendTransacEmail env mail = Inl e"
    then have "enabled env" "apiKey env \<noteq> []" "readTemplate env = Inr t" "t \<noteq> []"
      "compose env t order = Inr mail" "sendTransacEmail env mail = Inl e" by blast+
    then show "sendOrderConfirmationEmail env order =
        Inr \<lparr> success = False, messageId = None, message = None,
              error = Some (if e \<noteq> [] then e else ''Failed to send email'') \<rparr>"
      by (rule send_service_throws)
  qed
  note n = patch_payment_status_notify [of notify orders oid uid body notify']
  have 6: "fst (patch_payment_status notify orders oid uid body) =
     fst (patch_payment_status notify' orders oid uid body)" using n by (rule conjunct1)
  have 7: "fst (snd (patch_payment_status notify orders oid uid body)) =
     fst (snd (patch_payment_status notify' orders oid uid body))" using n by (rule conjunct2)
  have 8: "\<forall>stored s. getOrderById orders oid = Some stored \<and> order_userId stored = uid \<and>
      payment_status_errors body = [] \<and> get_prop body ''status'' = Some (JStr s) \<longrightarrow>
      res_status (fst (snd (patch_payment_status notify orders oid uid body))) = 200 \<and>
      res_success (fst (snd (patch_payment_status notify orders oid uid body))) \<and>
      snd (snd (patch_payment_status notify orders oid uid body)) =
        (case notify (set_payment_status s (get_prop body ''paymentTransactionId'') stored) of
           Inl err \<Rightarrow> [''Failed to send order confirmation email: '' @ err]
         | Inr res \<Rightarrow> [])"
  proof (intro allI impI)
    fix stored s
    assume h: "getOrderById orders oid = Some stored \<and> order_userId stored = uid \<and>
      payment_status_errors body = [] \<and> get_prop body ''status'' = Some (JStr s)"
    then have "getOrderById orders oid = Some stored" "order_userId stored = uid"
      "payment_status_errors body = []" "get_prop body ''status'' = Some (JStr s)" by simp_all
    from patch_payment_status_found [OF this, of notify]
    show "res_status (fst (snd (patch_payment_status notify orders oid uid body))) = 200 \<and>
      res_success (fst (snd (patch_payment_status notify orders oid uid body))) \<and>
      snd (snd (patch_payment_status notify orders oid uid body)) =
        (case notify (set_payment_status s (get_prop body ''paymentTransactionId'') stored) of
           Inl err \<Rightarrow> [''Failed to send order confirmation email: '' @ err]
         | Inr res \<Rightarrow> [])"
      by simp
  qed
  show ?thesis by (intro conjI 1 2 3 4 5 6 7 8)
qed

theorem notifier_never_throws_witness:
  "enabled failing_mail_env \<and> apiKey failing_mail_env \<noteq> [] \<and>
   sendOrderConfirmationEmail failing_mail_env pending_order =
     Inr \<lparr> success = False, messageId = None, message = None, error = Some ''connect ECONNREFUSED'' \<rparr> \<and>
   getOrderById [pending_order] ''66b000000000000000000001'' = Some pending_order \<and>
   res_status (fst (snd (patch_payment_status (\<lambda>x. Inl ''rejected'') [pending_order]
                          ''66b000000000000000000001'' ''u1'' completed_request))) = 200 \<and>
   snd (snd (patch_payment_status (\<lambda>x. Inl ''rejected'') [pending_order]
               ''66b000000000000000000001'' ''u1'' completed_request)) =
     [''Failed to send order confirmation email: rejected'']"
proof -
  have en: "enabled failing_mail_env" by (simp add: failing_mail_env_def)
  have key: "apiKey failing_mail_env \<noteq> []" by (simp add: failing_mail_env_def)
  have h: "enabled failing_mail_env \<and> apiKey failing_mail_env \<noteq> [] \<and>
           readTemplate failing_mail_env = Inr ''<html>{{ORDER_ID}}</html>'' \<and> ''<html>{{ORDER_ID}}</html>'' \<noteq> [] \<and>
           compose failing_mail_env ''<html>{{ORDER_ID}}</html>'' pending_order = Inr ''<html>{{ORDER_ID}}</html>'' \<and>
           sendTransacEmail failing_mail_env ''<html>{{ORDER_ID}}</html>'' = Inl ''connect ECONNREFUSED''"
    by (simp add: failing_mail_env_def)
  note t = notifier_never_throws [where env = failing_mail_env and order = pending_order
      and notify = "\<lambda>x. Inl ''rejected''" and notify' = "\<lambda>x. Inl ''rejected''"
      and orders = "[pending_order]" and oid = "''66b000000000000000000001''" and uid = "''u1''"
      and body = completed_request]
  from t [THEN conjunct2, THEN conjunct2, THEN conjunct2, THEN conjunct2, THEN conjunct1, rule_format, OF h]
  have a: "sendOrderConfirmationEmail failing_mail_env pending_order =
     Inr \<lparr> success = False, messageId = None, message = None, error = Some ''connect ECONNREFUSED'' \<rparr>"
    by simp
  have g: "getOrderById [pending_order] ''66b000000000000000000001'' = Some pending_order" by code_simp
  have k: "getOrderById [pending_order] ''66b000000000000000000001'' = Some pending_order \<and>
           order_userId pending_order = ''u1'' \<and> payment_status_errors completed_request = [] \<and>
           get_prop completed_request ''status'' = Some (JStr ''completed'')"
    by code_simp
  from t [THEN conjunct2, THEN conjunct2, THEN conjunct2, THEN conjunct2, THEN conjunct2, THEN conjunct2,
          THEN conjunct2, rule_format, OF k]
  have b: "res_status (fst (snd (patch_payment_status (\<lambda>x. Inl ''rejected'') [pending_order]
                          ''66b000000000000000000001'' ''u1'' completed_request))) = 200"
    and c: "snd (snd (patch_payment_status (\<lambda>x. Inl ''rejected'') [pending_order]
               ''66b000000000000000000001'' ''u1'' completed_request)) =
             [''Failed to send order confirmation email: rejected'']"
    by simp_all
  from en key a g b c show ?thesis by (intro conjI)
qed

end
